theory Spec2Isabelle
  imports Complex_Main "HOL-Library.AList" "HOL-Library.Multiset" "HOL-Library.Sublist" "HOL-Library.Char_ord" "HOL-Library.List_Lexorder"
begin

section \<open>Numbers\<close>

text \<open>
  The program computes with Python and numpy floats. A float is modelled as a
  \<open>real option\<close>: \<open>Some x\<close> is the number \<open>x\<close>, \<open>None\<close> is NaN (pandas' missing
  value). Arithmetic is exact: rounding error, signed zeros and the infinities are
  not modelled, and a division by zero (numpy: NaN or an infinity) is \<open>None\<close>.
  Every comparison with NaN is false, as in Python.
\<close>

type_synonym pyfloat = "real option"

definition fadd :: "pyfloat \<Rightarrow> pyfloat \<Rightarrow> pyfloat" where
  "fadd a b = (case a of None \<Rightarrow> None | Some x \<Rightarrow> (case b of None \<Rightarrow> None | Some y \<Rightarrow> Some (x + y)))"

definition fsub :: "pyfloat \<Rightarrow> pyfloat \<Rightarrow> pyfloat" where
  "fsub a b = (case a of None \<Rightarrow> None | Some x \<Rightarrow> (case b of None \<Rightarrow> None | Some y \<Rightarrow> Some (x - y)))"

definition fmul :: "pyfloat \<Rightarrow> pyfloat \<Rightarrow> pyfloat" where
  "fmul a b = (case a of None \<Rightarrow> None | Some x \<Rightarrow> (case b of None \<Rightarrow> None | Some y \<Rightarrow> Some (x * y)))"

definition fdiv :: "pyfloat \<Rightarrow> pyfloat \<Rightarrow> pyfloat" where
  "fdiv a b = (case a of None \<Rightarrow> None | Some x \<Rightarrow>
     (case b of None \<Rightarrow> None | Some y \<Rightarrow> if y = 0 then None else Some (x / y)))"

definition fabs :: "pyfloat \<Rightarrow> pyfloat" where
  "fabs a = (case a of None \<Rightarrow> None | Some x \<Rightarrow> Some \<bar>x\<bar>)"

definition flt :: "pyfloat \<Rightarrow> pyfloat \<Rightarrow> bool" where
  "flt a b = (case a of None \<Rightarrow> False | Some x \<Rightarrow> (case b of None \<Rightarrow> False | Some y \<Rightarrow> x < y))"

definition fle :: "pyfloat \<Rightarrow> pyfloat \<Rightarrow> bool" where
  "fle a b = (case a of None \<Rightarrow> False | Some x \<Rightarrow> (case b of None \<Rightarrow> False | Some y \<Rightarrow> x \<le> y))"

definition fgt :: "pyfloat \<Rightarrow> pyfloat \<Rightarrow> bool" where
  "fgt a b = flt b a"

definition fge :: "pyfloat \<Rightarrow> pyfloat \<Rightarrow> bool" where
  "fge a b = fle b a"

text \<open>
  Python's builtin \<open>min(a, b)\<close> keeps \<open>a\<close> unless \<open>b < a\<close>, and \<open>max(a, b)\<close> keeps
  \<open>a\<close> unless \<open>b > a\<close>; with a NaN argument the first argument wins.
\<close>

definition py_min :: "pyfloat \<Rightarrow> pyfloat \<Rightarrow> pyfloat" where
  "py_min a b = (if flt b a then b else a)"

definition py_max :: "pyfloat \<Rightarrow> pyfloat \<Rightarrow> pyfloat" where
  "py_max a b = (if fgt b a then b else a)"

text \<open>Rounding to the nearest integer, a tie going to the even neighbour.\<close>

definition round_half_even :: "real \<Rightarrow> int" where
  "round_half_even x =
     (let f = \<lfloor>x\<rfloor>; d = x - of_int f
      in if d < 1 / 2 then f
         else if 1 / 2 < d then f + 1
         else if even f then f else f + 1)"

text \<open>\<open>round(x, ndigits)\<close>: NaN stays NaN.\<close>

definition py_round :: "pyfloat \<Rightarrow> nat \<Rightarrow> pyfloat" where
  "py_round a ndigits =
     (case a of None \<Rightarrow> None
      | Some x \<Rightarrow> Some (of_int (round_half_even (x * 10 ^ ndigits)) / 10 ^ ndigits))"

subsection \<open>Fixed-point formatting\<close>

definition digit_char :: "nat \<Rightarrow> char" where
  "digit_char d = char_of (48 + d)"

function show_nat :: "nat \<Rightarrow> string" where
  "show_nat n = (if n < 10 then [digit_char n] else show_nat (n div 10) @ [digit_char (n mod 10)])"
  by pat_completeness auto
termination
  by (relation "measure id") auto

declare show_nat.simps [simp del]

text \<open>The format specification \<open>:.<d>f\<close> of an f-string.\<close>

definition format_fixed :: "nat \<Rightarrow> pyfloat \<Rightarrow> string" where
  "format_fixed d a =
     (case a of None \<Rightarrow> ''nan''
      | Some x \<Rightarrow>
          (let scaled = nat (round_half_even (\<bar>x\<bar> * 10 ^ d));
               whole = show_nat (scaled div 10 ^ d);
               frac = show_nat (scaled mod 10 ^ d)
           in (if x < 0 then ''-'' else '''') @ whole @
              (if d = 0 then '''' else ''.'' @ replicate (d - length frac) (CHR ''0'') @ frac)))"

section \<open>Tables of daily bars\<close>

text \<open>
  A data frame is the list of its rows, oldest first. A cell is a float, NaN when
  the value is missing.
\<close>

record bar =
  Open :: pyfloat
  High :: pyfloat
  Low :: pyfloat
  Close :: pyfloat
  Volume :: pyfloat

record enriched_bar = bar +
  RSI14 :: pyfloat
  SMA20 :: pyfloat
  SMA50 :: pyfloat
  SMA200 :: pyfloat
  EMA20 :: pyfloat
  VWAP :: pyfloat
  MACD :: pyfloat
  MACDSignal :: pyfloat
  MACDHist :: pyfloat
  Ret1D :: pyfloat
  Ret5D :: pyfloat
  VolumeAvg20 :: pyfloat
  VolumeRatio :: pyfloat

section \<open>Signal generator\<close>

record TradeSignal =
  symbol :: string
  signal :: string
  current_price :: pyfloat
  entry_zone :: string
  target_price :: pyfloat
  stop_loss :: pyfloat
  reason :: string
  signal_score :: pyfloat

definition buy_score :: "enriched_bar \<Rightarrow> pyfloat" where
  "buy_score row =
     (let score = Some 0;
          score = fadd score (Some (if fgt (SMA20 row) (SMA50 row) then 20 else 0));
          score = fadd score (Some (if fgt (SMA50 row) (SMA200 row) then 15 else 0));
          score = fadd score (Some (if fle (Some 40) (RSI14 row) \<and> fle (RSI14 row) (Some 70) then 20 else 0));
          score = fadd score (Some (if fgt (MACD row) (MACDSignal row) then 20 else 0));
          score = fadd score (Some (if fgt (VolumeRatio row) (Some 1.2) then 15 else 0));
          score = fadd score (py_min (py_max (fmul (Ret5D row) (Some 100)) (Some 0)) (Some 10))
      in score)"

definition sell_score :: "enriched_bar \<Rightarrow> pyfloat" where
  "sell_score row =
     (let score = Some 0;
          score = fadd score (Some (if fgt (RSI14 row) (Some 75) then 20 else 0));
          score = fadd score (Some (if flt (SMA20 row) (SMA50 row) then 20 else 0));
          score = fadd score (Some (if flt (SMA50 row) (SMA200 row) then 15 else 0));
          score = fadd score (Some (if flt (MACD row) (MACDSignal row) then 20 else 0));
          score = fadd score (Some (if fgt (VolumeRatio row) (Some 1.2) \<and> flt (Ret1D row) (Some 0) then 15 else 0));
          score = fadd score (py_min (fabs (py_min (fmul (Ret5D row) (Some 100)) (Some 0))) (Some 10))
      in score)"

definition buy_signal :: "string \<Rightarrow> enriched_bar \<Rightarrow> TradeSignal" where
  "buy_signal s latest =
     (let price = Close latest
      in \<lparr>symbol = s,
          signal = ''BUY'',
          current_price = price,
          entry_zone = format_fixed 2 (fmul price (Some 0.99)) @ '' - '' @
                       format_fixed 2 (fmul price (Some 1.01)),
          target_price = py_round (fmul price (Some 1.05)) 2,
          stop_loss = py_round (fmul price (Some 0.97)) 2,
          reason = ''Momentum + trend alignment (RSI='' @ format_fixed 1 (RSI14 latest) @
                   '', VolRatio='' @ format_fixed 2 (VolumeRatio latest) @ '')'',
          signal_score = buy_score latest\<rparr>)"

definition sell_signal :: "string \<Rightarrow> enriched_bar \<Rightarrow> TradeSignal" where
  "sell_signal s latest =
     (let price = Close latest
      in \<lparr>symbol = s,
          signal = ''SELL'',
          current_price = price,
          entry_zone = format_fixed 2 (fmul price (Some 0.99)) @ '' - '' @
                       format_fixed 2 (fmul price (Some 1.01)),
          target_price = py_round (fmul price (Some 0.95)) 2,
          stop_loss = py_round (fmul price (Some 1.03)) 2,
          reason = ''Reversal risk elevated (RSI='' @ format_fixed 1 (RSI14 latest) @
                   '', MACDHist='' @ format_fixed 3 (MACDHist latest) @ '')'',
          signal_score = sell_score latest\<rparr>)"

text \<open>
  A dictionary is the list of its items in insertion order. The loop of
  \<open>generate_signals\<close> over \<open>indicator_data.items()\<close>, with the two lists it
  appends to.
\<close>

fun scan_symbols ::
  "(string \<times> enriched_bar list) list \<Rightarrow> TradeSignal list \<Rightarrow> TradeSignal list
     \<Rightarrow> TradeSignal list \<times> TradeSignal list" where
  "scan_symbols [] buys sells = (buys, sells)"
| "scan_symbols ((s, df) # rest) buys sells =
     (if df = [] then scan_symbols rest buys sells
      else
        (let latest = last df;
             buys' = (if fge (buy_score latest) (Some 55) then buys @ [buy_signal s latest] else buys);
             sells' = (if fge (sell_score latest) (Some 55) then sells @ [sell_signal s latest] else sells)
         in scan_symbols rest buys' sells'))"

text \<open>
  \<open>sorted(xs, key=..., reverse=True)\<close>: a stable sort into descending order of the
  key. Python compares keys with \<open><\<close>; on keys that are numbers every stable sort
  gives this list.
\<close>

fun insort_desc :: "('a \<Rightarrow> pyfloat) \<Rightarrow> 'a \<Rightarrow> 'a list \<Rightarrow> 'a list" where
  "insort_desc key x [] = [x]"
| "insort_desc key x (y # ys) =
     (if flt (key x) (key y) then y # insort_desc key x ys else x # y # ys)"

definition sorted_desc :: "('a \<Rightarrow> pyfloat) \<Rightarrow> 'a list \<Rightarrow> 'a list" where
  "sorted_desc key xs = foldr (insort_desc key) xs []"

text \<open>The slice \<open>xs[:n]\<close>; a negative \<open>n\<close> counts from the end.\<close>

definition slice_to :: "'a list \<Rightarrow> int \<Rightarrow> 'a list" where
  "slice_to xs n = (if 0 \<le> n then take (nat n) xs else take (length xs - nat (- n)) xs)"

definition generate_signals ::
  "(string \<times> enriched_bar list) list \<Rightarrow> int \<Rightarrow> TradeSignal list" where
  "generate_signals indicator_data top_n =
     (let (buys, sells) = scan_symbols indicator_data [] [];
          buys = slice_to (sorted_desc signal_score buys) top_n;
          sells = slice_to (sorted_desc signal_score sells) top_n
      in buys @ sells)"

section \<open>Exceptions and dictionaries\<close>

datatype error =
  KeyError string
  | ValueError string
  | RuntimeError string
  | LibraryError string

text \<open>
  A dictionary is the list of its items in insertion order, keys distinct.
  \<open>d[k]\<close> raises \<open>KeyError\<close> for a missing key; \<open>d[k] = v\<close> is \<open>AList.update\<close>, which
  overwrites the value of a key in place and appends a new key.
\<close>

definition getitem :: "(string \<times> 'v) list \<Rightarrow> string \<Rightarrow> error + 'v" where
  "getitem d k = (case map_of d k of None \<Rightarrow> Inl (KeyError k) | Some v \<Rightarrow> Inr v)"

definition ebind :: "error + 'a \<Rightarrow> ('a \<Rightarrow> error + 'b) \<Rightarrow> error + 'b" where
  "ebind m f = (case m of Inl e \<Rightarrow> Inl e | Inr x \<Rightarrow> f x)"

section \<open>Series operations of pandas\<close>

text \<open>A series is a column: the list of its cells.\<close>

definition dropna_series :: "pyfloat list \<Rightarrow> real list" where
  "dropna_series xs = List.map_filter (\<lambda>x. x) xs"

text \<open>
  \<open>pct_change(periods)\<close>: \<open>x[i] / x[i - periods] - 1\<close>, NaN in the first \<open>periods\<close>
  cells. A NaN of the column is not filled forward first (an older pandas does so by
  default); the two agree on a column with no NaN.
\<close>

definition pct_change :: "nat \<Rightarrow> pyfloat list \<Rightarrow> pyfloat list" where
  "pct_change periods xs =
     map (\<lambda>i. if i < periods then None
              else fsub (fdiv (xs ! i) (xs ! (i - periods))) (Some 1)) [0..<length xs]"

text \<open>
  \<open>cumsum\<close>, \<open>cumprod\<close> and \<open>cummax\<close> skip NaN: the cell of a NaN is NaN and the
  running value carries on past it.
\<close>

fun cumulate :: "(real \<Rightarrow> real \<Rightarrow> real) \<Rightarrow> real option \<Rightarrow> pyfloat list \<Rightarrow> pyfloat list" where
  "cumulate f acc [] = []"
| "cumulate f acc (None # xs) = None # cumulate f acc xs"
| "cumulate f acc (Some x # xs) =
     (let a = (case acc of None \<Rightarrow> x | Some a \<Rightarrow> f a x) in Some a # cumulate f (Some a) xs)"

definition cumsum :: "pyfloat list \<Rightarrow> pyfloat list" where
  "cumsum xs = cumulate (+) None xs"

definition cumprod :: "pyfloat list \<Rightarrow> pyfloat list" where
  "cumprod xs = cumulate (*) None xs"

definition cummax :: "pyfloat list \<Rightarrow> pyfloat list" where
  "cummax xs = cumulate max None xs"

text \<open>\<open>std()\<close>: the sample standard deviation (\<open>ddof = 1\<close>) of the cells that are not NaN.\<close>

definition series_std :: "pyfloat list \<Rightarrow> pyfloat" where
  "series_std xs =
     (let vs = dropna_series xs; n = length vs
      in if n < 2 then None
         else (let m = sum_list vs / real n
               in Some (sqrt (sum_list (map (\<lambda>v. (v - m)\<^sup>2) vs) / real (n - 1)))))"

text \<open>\<open>min()\<close>: the least cell that is not NaN, NaN when there is none.\<close>

definition series_min :: "pyfloat list \<Rightarrow> pyfloat" where
  "series_min xs = (case dropna_series xs of [] \<Rightarrow> None | v # vs \<Rightarrow> Some (fold min vs v))"

text \<open>
  \<open>rolling(window).mean()\<close>: the mean of the last \<open>window\<close> cells, NaN while fewer
  than \<open>window\<close> cells are there or one of them is NaN.
\<close>

definition rolling_mean :: "nat \<Rightarrow> pyfloat list \<Rightarrow> pyfloat list" where
  "rolling_mean window xs =
     map (\<lambda>i. if i + 1 < window then None
              else (case those (take window (drop (i + 1 - window) xs)) of
                      None \<Rightarrow> None
                    | Some vs \<Rightarrow> if window = 0 then None else Some (sum_list vs / real window)))
         [0..<length xs]"

section \<open>Risk engine\<close>

record RiskProfile =
  volatility_score :: pyfloat
  drawdown_risk :: pyfloat
  trend_stability :: pyfloat
  stop_loss :: pyfloat
  risk_level :: string

definition risk_level_of :: "pyfloat \<Rightarrow> string" where
  "risk_level_of score =
     (if flt score (Some 0.33) then ''LOW''
      else if flt score (Some 0.66) then ''MEDIUM''
      else ''HIGH'')"

text \<open>The local variables of \<open>evaluate_risk\<close>, each as a function of the table.\<close>

definition returns_of :: "enriched_bar list \<Rightarrow> pyfloat list" where
  "returns_of data = map Some (dropna_series (pct_change 1 (map Close data)))"

definition volatility_of :: "enriched_bar list \<Rightarrow> pyfloat" where
  "volatility_of data = fmul (series_std (returns_of data)) (Some (sqrt 252))"

definition drawdown_abs_of :: "enriched_bar list \<Rightarrow> pyfloat" where
  "drawdown_abs_of data =
     (let cumulative = cumprod (map (fadd (Some 1)) (returns_of data));
          peak = cummax cumulative;
          drawdown = series_min (map2 (\<lambda>c p. fdiv (fsub c p) p) cumulative peak)
      in fabs drawdown)"

definition trend_strength_of :: "enriched_bar list \<Rightarrow> pyfloat" where
  "trend_strength_of data =
     (if 30 \<le> length data
      then fabs (fsub (fdiv (Close (data ! (length data - 1))) (Close (data ! (length data - 30))))
                      (Some 1))
      else Some 0)"

definition trend_stability_of :: "enriched_bar list \<Rightarrow> pyfloat" where
  "trend_stability_of data =
     py_max (Some 0)
       (py_min (Some 1) (fsub (Some 1) (fabs (fsub (volatility_of data) (trend_strength_of data)))))"

definition blended_risk_of :: "enriched_bar list \<Rightarrow> pyfloat" where
  "blended_risk_of data =
     (let normalized_vol = py_min (fdiv (volatility_of data) (Some 0.6)) (Some 1);
          normalized_dd = py_min (fdiv (drawdown_abs_of data) (Some 0.35)) (Some 1)
      in fadd (fadd (fmul normalized_vol (Some 0.45)) (fmul normalized_dd (Some 0.45)))
              (fmul (fsub (Some 1) (trend_stability_of data)) (Some 0.10)))"

definition evaluate_risk :: "TradeSignal \<Rightarrow> enriched_bar list \<Rightarrow> RiskProfile" where
  "evaluate_risk sg data =
     \<lparr>volatility_score = py_round (volatility_of data) 4,
      drawdown_risk = py_round (drawdown_abs_of data) 4,
      trend_stability = py_round (trend_stability_of data) 4,
      stop_loss = TradeSignal.stop_loss sg,
      risk_level = risk_level_of (blended_risk_of data)\<rparr>"

text \<open>
  \<open>batch_evaluate\<close>: the dictionary comprehension, one signal after the other; a
  second signal of a symbol overwrites the entry of the first.
\<close>

fun batch_evaluate_from ::
  "(string \<times> RiskProfile) list \<Rightarrow> TradeSignal list \<Rightarrow> (string \<times> enriched_bar list) list
     \<Rightarrow> error + (string \<times> RiskProfile) list" where
  "batch_evaluate_from acc [] indicator_data = Inr acc"
| "batch_evaluate_from acc (sg # rest) indicator_data =
     (case getitem indicator_data (symbol sg) of
        Inl e \<Rightarrow> Inl e
      | Inr data \<Rightarrow>
          batch_evaluate_from (AList.update (symbol sg) (evaluate_risk sg data) acc) rest
            indicator_data)"

definition batch_evaluate ::
  "TradeSignal list \<Rightarrow> (string \<times> enriched_bar list) list \<Rightarrow> error + (string \<times> RiskProfile) list" where
  "batch_evaluate signals indicator_data = batch_evaluate_from [] signals indicator_data"

section \<open>Probability engine\<close>

record ProbabilityEstimate =
  probability :: pyfloat
  confidence_note :: string

definition estimate_probability :: "TradeSignal \<Rightarrow> RiskProfile \<Rightarrow> error + ProbabilityEstimate" where
  "estimate_probability sg risk =
     (let signal_component = py_min (fdiv (signal_score sg) (Some 100)) (Some 1)
      in case getitem [(''LOW'', 0.85), (''MEDIUM'', 0.65), (''HIGH'', 0.45)] (risk_level risk) of
           Inl e \<Rightarrow> Inl e
         | Inr risk_component \<Rightarrow>
             (let stability_component = trend_stability risk;
                  score = fadd (fadd (fmul signal_component (Some 0.55))
                                     (fmul (Some risk_component) (Some 0.30)))
                               (fmul stability_component (Some 0.15));
                  probability = py_round (fmul score (Some 100)) 2;
                  note = (if fge probability (Some 70) then ''Strong trend continuation''
                          else if fge probability (Some 55) then ''Moderate edge with controlled risk''
                          else ''Weak setup; position sizing caution'')
              in Inr \<lparr>probability = probability, confidence_note = note\<rparr>))"

section \<open>Indicator engine\<close>

text \<open>
  The indicators come from the third-party library \<open>ta\<close>, which is no part of the
  repository: it is a parameter. Each function takes the window sizes and the Close
  column, and returns a column or raises. \<open>macd\<close> stands for the \<open>MACD\<close> object: the
  MACD line, the signal line and the histogram.
\<close>

record ta_library =
  rsi :: "nat \<Rightarrow> pyfloat list \<Rightarrow> error + pyfloat list"
  sma_indicator :: "nat \<Rightarrow> pyfloat list \<Rightarrow> error + pyfloat list"
  ema_indicator :: "nat \<Rightarrow> pyfloat list \<Rightarrow> error + pyfloat list"
  macd :: "nat \<Rightarrow> nat \<Rightarrow> nat \<Rightarrow> pyfloat list
             \<Rightarrow> error + (pyfloat list \<times> pyfloat list \<times> pyfloat list)"

definition calc_vwap :: "bar list \<Rightarrow> pyfloat list" where
  "calc_vwap df =
     (let typical_price = map (\<lambda>r. fdiv (fadd (fadd (High r) (Low r)) (Close r)) (Some 3)) df;
          cumulative_value = cumsum (map2 fmul typical_price (map Volume df));
          cumulative_volume = cumsum (map (\<lambda>r. if Volume r = Some 0 then None else Volume r) df)
      in map2 fdiv cumulative_value cumulative_volume)"

text \<open>
  Assigning a series to a column aligns it on the index: a row the series has no
  cell for gets NaN.
\<close>

definition cell :: "pyfloat list \<Rightarrow> nat \<Rightarrow> pyfloat" where
  "cell col i = (if i < length col then col ! i else None)"

definition notna :: "enriched_bar \<Rightarrow> bool" where
  "notna r \<longleftrightarrow>
     Open r \<noteq> None \<and> High r \<noteq> None \<and> Low r \<noteq> None \<and> Close r \<noteq> None \<and> Volume r \<noteq> None \<and>
     RSI14 r \<noteq> None \<and> SMA20 r \<noteq> None \<and> SMA50 r \<noteq> None \<and> SMA200 r \<noteq> None \<and>
     EMA20 r \<noteq> None \<and> VWAP r \<noteq> None \<and> MACD r \<noteq> None \<and> MACDSignal r \<noteq> None \<and>
     MACDHist r \<noteq> None \<and> Ret1D r \<noteq> None \<and> Ret5D r \<noteq> None \<and> VolumeAvg20 r \<noteq> None \<and>
     VolumeRatio r \<noteq> None"

definition dropna :: "enriched_bar list \<Rightarrow> enriched_bar list" where
  "dropna data = filter notna data"

text \<open>The body of the \<open>try\<close> block: the table with its indicator columns, before \<open>dropna\<close>.\<close>

definition with_indicators :: "ta_library \<Rightarrow> bar list \<Rightarrow> error + enriched_bar list" where
  "with_indicators ta df =
     (let close = map Close df in
      ebind (rsi ta 14 close) (\<lambda>rsi14.
      ebind (sma_indicator ta 20 close) (\<lambda>sma20.
      ebind (sma_indicator ta 50 close) (\<lambda>sma50.
      ebind (sma_indicator ta 200 close) (\<lambda>sma200.
      ebind (ema_indicator ta 20 close) (\<lambda>ema20.
      (let vwap = calc_vwap df in
      ebind (macd ta 26 12 9 close) (\<lambda>(macd_line, macd_signal, macd_diff).
      (let ret1d = pct_change 1 close;
           ret5d = pct_change 5 close;
           volume_avg20 = rolling_mean 20 (map Volume df);
           volume_ratio = map2 fdiv (map Volume df) volume_avg20
       in Inr (map (\<lambda>i.
            bar.extend (df ! i)
              (enriched_bar.fields (cell rsi14 i) (cell sma20 i) (cell sma50 i) (cell sma200 i)
                 (cell ema20 i) (cell vwap i) (cell macd_line i) (cell macd_signal i)
                 (cell macd_diff i) (cell ret1d i) (cell ret5d i) (cell volume_avg20 i)
                 (cell volume_ratio i)))
            [0..<length df]))))))))))"

definition enrich_symbol :: "ta_library \<Rightarrow> bar list \<Rightarrow> error + enriched_bar list" where
  "enrich_symbol ta df = ebind (with_indicators ta df) (\<lambda>data. Inr (dropna data))"

datatype log_record =
  IndicatorEnrichmentFailed string error
  | InsufficientHistory string nat
  | DataFetchFailed string error

text \<open>
  The loop of \<open>enrich_with_indicators\<close>: \<open>except Exception\<close> logs a warning and goes
  on with the next symbol. The warnings are returned beside the dictionary.
\<close>

fun enrich_from ::
  "ta_library \<Rightarrow> (string \<times> enriched_bar list) list \<Rightarrow> log_record list \<Rightarrow> (string \<times> bar list) list
     \<Rightarrow> (string \<times> enriched_bar list) list \<times> log_record list" where
  "enrich_from ta enriched warnings [] = (enriched, warnings)"
| "enrich_from ta enriched warnings ((s, df) # rest) =
     (case enrich_symbol ta df of
        Inr data \<Rightarrow> enrich_from ta (AList.update s data enriched) warnings rest
      | Inl exc \<Rightarrow> enrich_from ta enriched (warnings @ [IndicatorEnrichmentFailed s exc]) rest)"

definition enrich_with_indicators ::
  "ta_library \<Rightarrow> (string \<times> bar list) list \<Rightarrow> (string \<times> enriched_bar list) list \<times> log_record list" where
  "enrich_with_indicators ta price_history = enrich_from ta [] [] price_history"

section \<open>Data fetcher\<close>

definition DEFAULT_NSE_SYMBOLS :: "string list" where
  "DEFAULT_NSE_SYMBOLS =
     [''RELIANCE.NS'', ''TCS.NS'', ''HDFCBANK.NS'', ''INFY.NS'', ''ICICIBANK.NS'',
      ''HINDUNILVR.NS'', ''SBIN.NS'', ''BHARTIARTL.NS'', ''ITC.NS'', ''LT.NS'',
      ''KOTAKBANK.NS'', ''HCLTECH.NS'', ''ASIANPAINT.NS'', ''AXISBANK.NS'', ''MARUTI.NS'',
      ''BAJFINANCE.NS'', ''SUNPHARMA.NS'', ''TATAMOTORS.NS'', ''NTPC.NS'', ''POWERGRID.NS'']"

record market_row =
  Symbol :: string
  CurrentPrice :: pyfloat
  PrevClose :: pyfloat
  PctChange :: pyfloat
  Volume :: pyfloat
  High :: pyfloat
  Low :: pyfloat
  Open :: pyfloat

text \<open>
  The snapshot. Its three views \<open>top_gainers\<close>, \<open>top_losers\<close> and \<open>volume_leaders\<close>
  are left out: the analysis reads \<open>price_history\<close> only.
\<close>

record MarketSnapshot =
  price_history :: "(string \<times> bar list) list"
  market_table :: "market_row list"

text \<open>
  \<open>_fetch_symbol_history\<close>: \<open>download\<close> is the call of Yahoo Finance, a parameter.
\<close>

definition fetch_symbol_history :: "(string \<Rightarrow> error + bar list) \<Rightarrow> string \<Rightarrow> error + bar list" where
  "fetch_symbol_history download s =
     ebind (download s) (\<lambda>df.
       if df = [] then Inl (ValueError (''No data returned for '' @ s)) else Inr df)"

text \<open>\<open>dropna(subset=["Close", "Volume"])\<close>.\<close>

definition dropna_close_volume :: "bar list \<Rightarrow> bar list" where
  "dropna_close_volume df = filter (\<lambda>r. Close r \<noteq> None \<and> bar.Volume r \<noteq> None) df"

text \<open>The loop of \<open>collect_market_data\<close> over the universe.\<close>

fun collect_from ::
  "(string \<Rightarrow> error + bar list) \<Rightarrow> (string \<times> bar list) list \<Rightarrow> market_row list \<Rightarrow> log_record list
     \<Rightarrow> string list \<Rightarrow> (string \<times> bar list) list \<times> market_row list \<times> log_record list" where
  "collect_from download history rows warnings [] = (history, rows, warnings)"
| "collect_from download history rows warnings (s # universe) =
     (case fetch_symbol_history download s of
        Inl exc \<Rightarrow> collect_from download history rows (warnings @ [DataFetchFailed s exc]) universe
      | Inr fetched \<Rightarrow>
          (let hist = dropna_close_volume fetched
           in if length hist < 60
              then collect_from download history rows
                     (warnings @ [InsufficientHistory s (length hist)]) universe
              else
                (let latest = hist ! (length hist - 1);
                     prev = hist ! (length hist - 2);
                     pct_change = fmul (fdiv (fsub (Close latest) (Close prev)) (Close prev)) (Some 100);
                     row = \<lparr>Symbol = s, CurrentPrice = Close latest, PrevClose = Close prev,
                            PctChange = pct_change, Volume = bar.Volume latest,
                            High = bar.High latest, Low = bar.Low latest, Open = bar.Open latest\<rparr>
                 in collect_from download (AList.update s hist history) (rows @ [row]) warnings
                      universe)))"

text \<open>
  \<open>sort_values("PctChange", ascending=False)\<close>: descending, NaN last. A data frame
  built from no row has no column, and sorting it by one raises \<open>KeyError\<close>.
\<close>

definition sort_by_pct_change :: "market_row list \<Rightarrow> error + market_row list" where
  "sort_by_pct_change rows =
     (if rows = [] then Inl (KeyError ''PctChange'')
      else Inr (sorted_desc PctChange (filter (\<lambda>r. PctChange r \<noteq> None) rows) @
                filter (\<lambda>r. PctChange r = None) rows))"

text \<open>
  \<open>constituents\<close> is what \<open>_load_sensex_constituents\<close> returned: the scraped tickers,
  or the empty list when the scrape failed.
\<close>

definition collect_market_data ::
  "string list \<Rightarrow> (string \<Rightarrow> error + bar list) \<Rightarrow> error + MarketSnapshot \<times> log_record list" where
  "collect_market_data constituents download =
     (let universe = sort (remdups (constituents @ DEFAULT_NSE_SYMBOLS))
      in if universe = [] then Inl (RuntimeError ''No symbols available for analysis'')
         else
           (let (history, rows, warnings) = collect_from download [] [] [] universe
            in ebind (sort_by_pct_change rows) (\<lambda>table.
                 if table = [] then Inl (RuntimeError ''Market data collection failed for all symbols'')
                 else Inr (\<lparr>price_history = history, market_table = table\<rparr>, warnings))))"

section \<open>Report generator\<close>

text \<open>A row of the report; the fields are the columns, in their order.\<close>

record report_row =
  Stock_Name :: string
  Signal :: string
  Current_Price :: pyfloat
  Entry_Zone :: string
  Target_Price :: pyfloat
  Stop_Loss :: pyfloat
  Risk_Level :: string
  Probability :: pyfloat
  Reason :: string

fun report_rows ::
  "TradeSignal list \<Rightarrow> (string \<times> RiskProfile) list \<Rightarrow> (string \<times> ProbabilityEstimate) list
     \<Rightarrow> error + report_row list" where
  "report_rows [] risks probabilities = Inr []"
| "report_rows (sg # signals) risks probabilities =
     ebind (getitem risks (symbol sg)) (\<lambda>risk.
     ebind (getitem probabilities (symbol sg)) (\<lambda>prob.
     ebind (report_rows signals risks probabilities) (\<lambda>rows.
       Inr (\<lparr>Stock_Name = symbol sg,
             Signal = signal sg,
             Current_Price = py_round (current_price sg) 2,
             Entry_Zone = entry_zone sg,
             Target_Price = target_price sg,
             Stop_Loss = stop_loss risk,
             Risk_Level = risk_level risk,
             Probability = probability prob,
             Reason = reason sg @ '' | '' @ confidence_note prob\<rparr> # rows))))"

text \<open>
  \<open>sort_values\<close> by the signal, ascending, then by the probability, descending and
  NaN last; rows that agree on both keep their order.
\<close>

definition report_before :: "report_row \<Rightarrow> report_row \<Rightarrow> bool" where
  "report_before a b \<longleftrightarrow>
     Signal a < Signal b \<or>
     (Signal a = Signal b \<and>
        (case Probability a of
           None \<Rightarrow> False
         | Some x \<Rightarrow> (case Probability b of None \<Rightarrow> True | Some y \<Rightarrow> y < x)))"

fun insort_report :: "report_row \<Rightarrow> report_row list \<Rightarrow> report_row list" where
  "insort_report x [] = [x]"
| "insort_report x (y # ys) =
     (if report_before y x then y # insort_report x ys else x # y # ys)"

definition build_report_dataframe ::
  "TradeSignal list \<Rightarrow> (string \<times> RiskProfile) list \<Rightarrow> (string \<times> ProbabilityEstimate) list
     \<Rightarrow> error + report_row list" where
  "build_report_dataframe signals risks probabilities =
     ebind (report_rows signals risks probabilities) (\<lambda>rows.
       Inr (if rows \<noteq> [] then foldr insort_report rows [] else rows))"

text \<open>
  What \<open>print_console_report\<close> prints, line by line. \<open>now\<close> is the formatted clock
  reading and \<open>to_string\<close> pandas' rendering of the table: parameters.
\<close>

definition print_console_report ::
  "string \<Rightarrow> (report_row list \<Rightarrow> string) \<Rightarrow> report_row list \<Rightarrow> string list" where
  "print_console_report now to_string report_df =
     [CHR 0x0A # replicate 110 (CHR ''=''),
      ''SENSEX/NSE POST-MARKET ACTIONABLE REPORT - '' @ now,
      replicate 110 (CHR ''='')] @
     (if report_df = [] then [''No actionable signals today.''] else [to_string report_df])"

section \<open>The daily run\<close>

text \<open>
  What the run reads from and writes to the outside: the scraped constituents, the
  download of a history, the indicator library, the clock, the rendering of a
  table, the writing of the spreadsheet and the mailer (the reading of the SMTP
  settings and the sending). The last two may raise.
\<close>

record world =
  constituents :: "string list"
  download :: "string \<Rightarrow> error + bar list"
  ta :: ta_library
  now :: string
  to_string :: "report_row list \<Rightarrow> string"
  write_excel :: "report_row list \<Rightarrow> string \<Rightarrow> error + unit"
  send_email :: "string \<Rightarrow> error + unit"

record run_result =
  report_path :: string
  report :: "report_row list"
  console :: "string list"
  warnings :: "log_record list"

text \<open>The dictionary comprehension of the probabilities.\<close>

fun probabilities_from ::
  "(string \<times> ProbabilityEstimate) list \<Rightarrow> TradeSignal list \<Rightarrow> (string \<times> RiskProfile) list
     \<Rightarrow> error + (string \<times> ProbabilityEstimate) list" where
  "probabilities_from acc [] risks = Inr acc"
| "probabilities_from acc (sg # rest) risks =
     ebind (getitem risks (symbol sg)) (\<lambda>risk.
     ebind (estimate_probability sg risk) (\<lambda>prob.
       probabilities_from (AList.update (symbol sg) prob acc) rest risks))"

definition run_daily_analysis :: "world \<Rightarrow> string \<Rightarrow> bool \<Rightarrow> error + run_result" where
  "run_daily_analysis w output_dir email_enabled =
     ebind (collect_market_data (constituents w) (download w)) (\<lambda>(snapshot, fetch_warnings).
       (let (indicator_data, enrich_warnings) = enrich_with_indicators (ta w) (price_history snapshot);
            signals = generate_signals indicator_data 10
        in ebind (batch_evaluate signals indicator_data) (\<lambda>risks.
           ebind (probabilities_from [] signals risks) (\<lambda>probabilities.
           ebind (build_report_dataframe signals risks probabilities) (\<lambda>report_df.
             (let printed = print_console_report (now w) (to_string w) report_df;
                  path = output_dir @ ''/sensex_daily_trade_report.xlsx''
              in ebind (write_excel w report_df path) (\<lambda>_.
                 ebind (if email_enabled then send_email w path else Inr ()) (\<lambda>_.
                   Inr \<lparr>report_path = path, report = report_df, console = printed,
                        warnings = fetch_warnings @ enrich_warnings\<rparr>))))))))"

section \<open>Auxiliary notions and example inputs\<close>

text \<open>Rows and tables for the examples of the signal generator and the risk engine.\<close>

definition bullish_row :: enriched_bar where
  "bullish_row =
     \<lparr>bar.Open = Some 100, bar.High = Some 102, bar.Low = Some 99, Close = Some 101,
      bar.Volume = Some 1500,
      RSI14 = Some 55, SMA20 = Some 100, SMA50 = Some 95, SMA200 = Some 90, EMA20 = Some 100,
      VWAP = Some 98, MACD = Some 2, MACDSignal = Some 1, MACDHist = Some 1,
      Ret1D = Some 0.01, Ret5D = Some 0.2, VolumeAvg20 = Some 1000, VolumeRatio = Some 1.5\<rparr>"

definition threshold_row :: enriched_bar where
  "threshold_row =
     \<lparr>bar.Open = Some 100, bar.High = Some 102, bar.Low = Some 99, Close = Some 101,
      bar.Volume = Some 1500,
      RSI14 = Some 55, SMA20 = Some 100, SMA50 = Some 95, SMA200 = Some 96, EMA20 = Some 100,
      VWAP = Some 98, MACD = Some 1, MACDSignal = Some 2, MACDHist = Some (- 1),
      Ret1D = Some 0.01, Ret5D = Some (- 0.01), VolumeAvg20 = Some 1000, VolumeRatio = Some 1.5\<rparr>"

definition below_row :: enriched_bar where
  "below_row =
     \<lparr>bar.Open = Some 100, bar.High = Some 102, bar.Low = Some 99, Close = Some 101,
      bar.Volume = Some 1500,
      RSI14 = Some 80, SMA20 = Some 100, SMA50 = Some 95, SMA200 = Some 90, EMA20 = Some 100,
      VWAP = Some 98, MACD = Some 1, MACDSignal = Some 2, MACDHist = Some (- 1),
      Ret1D = Some 0.01, Ret5D = Some 0.0499, VolumeAvg20 = Some 1000, VolumeRatio = Some 1.5\<rparr>"

definition threshold_data :: "(string \<times> enriched_bar list) list" where
  "threshold_data =
     [(''TCS.NS'', [bullish_row, threshold_row]), (''INFY.NS'', [below_row]), (''ITC.NS'', [])]"

definition bull :: "real \<Rightarrow> enriched_bar" where
  "bull r5 = bullish_row\<lparr>Ret5D := Some r5\<rparr>"

definition rank_data :: "(string \<times> enriched_bar list) list" where
  "rank_data =
     [(''INFY.NS'', [bull 0.05]), (''TCS.NS'', [bull 0.2]), (''ITC.NS'', [bull 0]),
      (''SBIN.NS'', [bull 0.2]), (''LT.NS'', [bull 0.05])]"

definition calm_profile :: RiskProfile where
  "calm_profile =
     \<lparr>volatility_score = Some 0.2, drawdown_risk = Some 0.1, trend_stability = Some 0.9,
      stop_loss = Some 97.97, risk_level = ''LOW''\<rparr>"

definition strong_signal :: TradeSignal where
  "strong_signal = buy_signal ''TCS.NS'' (bull 0.2)"

definition weaker_signal :: TradeSignal where
  "weaker_signal = buy_signal ''INFY.NS'' (bull 0.05)"

definition priced :: "real \<Rightarrow> enriched_bar" where
  "priced c = bullish_row\<lparr>Close := Some c\<rparr>"

definition stepped_table :: "enriched_bar list" where
  "stepped_table = priced 1 # replicate 29 (priced 2) @ [priced 4]"

definition flat_table :: "enriched_bar list" where
  "flat_table = replicate 30 (priced 100)"

text \<open>
  What the loop of \<open>enrich_with_indicators\<close> makes of one item: an entry of the
  dictionary, or a warning.
\<close>

definition enriched_item :: "ta_library \<Rightarrow> string \<times> bar list \<Rightarrow> (string \<times> enriched_bar list) option" where
  "enriched_item lib item =
     (case enrich_symbol lib (snd item) of Inr data \<Rightarrow> Some (fst item, data) | Inl exc \<Rightarrow> None)"

definition warning_item :: "ta_library \<Rightarrow> string \<times> bar list \<Rightarrow> log_record option" where
  "warning_item lib item =
     (case enrich_symbol lib (snd item) of
        Inr data \<Rightarrow> None
      | Inl exc \<Rightarrow> Some (IndicatorEnrichmentFailed (fst item) exc))"

text \<open>
  An indicator library for the examples. The simple moving average is the
  library's, the rolling mean of the window; the other indicators are stand-ins with
  the warm-up of their windows. Every indicator raises on an empty column.
\<close>

definition rolling_indicator :: "nat \<Rightarrow> pyfloat list \<Rightarrow> error + pyfloat list" where
  "rolling_indicator window close =
     (if close = [] then Inl (ValueError ''empty series'') else Inr (rolling_mean window close))"

definition rolling_ta :: ta_library where
  "rolling_ta =
     \<lparr>rsi = rolling_indicator,
      sma_indicator = rolling_indicator,
      ema_indicator = rolling_indicator,
      macd = (\<lambda>slow fast sign close.
        ebind (rolling_indicator slow close) (\<lambda>line.
        ebind (rolling_indicator (slow + sign - 1) close) (\<lambda>sig.
          Inr (line, sig, map2 fsub line sig))))\<rparr>"

text \<open>A bar, and the rows that 201 such bars are enriched to.\<close>

definition steady_bar :: bar where
  "steady_bar =
     \<lparr>bar.Open = Some 100, bar.High = Some 102, bar.Low = Some 98, Close = Some 100,
      bar.Volume = Some 1000\<rparr>"

definition steady_enriched :: enriched_bar where
  "steady_enriched =
     \<lparr>bar.Open = Some 100, bar.High = Some 102, bar.Low = Some 98, Close = Some 100,
      bar.Volume = Some 1000,
      RSI14 = Some 100, SMA20 = Some 100, SMA50 = Some 100, SMA200 = Some 100, EMA20 = Some 100,
      VWAP = Some 100, MACD = Some 100, MACDSignal = Some 100, MACDHist = Some 0,
      Ret1D = Some 0, Ret5D = Some 0, VolumeAvg20 = Some 1000, VolumeRatio = Some 1\<rparr>"

definition steady_row :: "nat \<Rightarrow> enriched_bar" where
  "steady_row i =
     bar.extend steady_bar
       (enriched_bar.fields
          (if i + 1 < 14 then None else Some 100) (if i + 1 < 20 then None else Some 100)
          (if i + 1 < 50 then None else Some 100) (if i + 1 < 200 then None else Some 100)
          (if i + 1 < 20 then None else Some 100) (Some 100)
          (if i + 1 < 26 then None else Some 100) (if i + 1 < 34 then None else Some 100)
          (if i + 1 < 34 then None else Some 0)
          (if i < 1 then None else Some 0) (if i < 5 then None else Some 0)
          (if i + 1 < 20 then None else Some 1000) (if i + 1 < 20 then None else Some 1))"

definition steady_history :: "(string \<times> bar list) list" where
  "steady_history = [(''TCS.NS'', replicate 201 steady_bar), (''INFY.NS'', [])]"

text \<open>
  The symbols that survive enrichment in a run: those with a non-empty enriched
  table.
\<close>

definition surviving_symbols :: "world \<Rightarrow> string list" where
  "surviving_symbols w =
     (case collect_market_data (constituents w) (download w) of
        Inl e \<Rightarrow> []
      | Inr (snapshot, fetch_warnings) \<Rightarrow>
          map fst (filter (\<lambda>item. snd item \<noteq> [])
                     (fst (enrich_with_indicators (ta w) (price_history snapshot)))))"

text \<open>A symbol whose download succeeds with at least 60 rows of Close and Volume.\<close>

definition usable_history :: "(string \<Rightarrow> error + bar list) \<Rightarrow> string \<Rightarrow> bool" where
  "usable_history dl s =
     (case fetch_symbol_history dl s of
        Inl exc \<Rightarrow> False
      | Inr fetched \<Rightarrow> 60 \<le> length (dropna_close_volume fetched))"

text \<open>
  Two worlds for the examples: in the first every download returns 60 identical
  bars, too few for the 200-bar average; in the second every download fails.
\<close>

definition quiet_world :: world where
  "quiet_world =
     \<lparr>constituents = [],
      download = (\<lambda>s. Inr (replicate 60 steady_bar)),
      ta = rolling_ta,
      now = ''2024-01-01 18:00:00'',
      to_string = (\<lambda>rows. ''''),
      write_excel = (\<lambda>rows path. Inr ()),
      send_email = (\<lambda>path. Inr ())\<rparr>"

definition dark_world :: world where
  "dark_world = quiet_world\<lparr>download := (\<lambda>s. Inl (RuntimeError ''no network''))\<rparr>"

text \<open>
  A row that qualifies in both directions (BUY score 55, SELL score 60), and the
  two lines of the report it leads to.
\<close>

definition mixed_row :: enriched_bar where
  "mixed_row =
     \<lparr>bar.Open = Some 100, bar.High = Some 102, bar.Low = Some 98, Close = Some 100,
      bar.Volume = Some 1500,
      RSI14 = Some 80, SMA20 = Some 100, SMA50 = Some 95, SMA200 = Some 105, EMA20 = Some 100,
      VWAP = Some 100, MACD = Some 2, MACDSignal = Some 1, MACDHist = Some 1,
      Ret1D = Some (- 0.01), Ret5D = Some (- 0.1), VolumeAvg20 = Some 1000, VolumeRatio = Some 1.5\<rparr>"

definition mixed_data :: "(string \<times> enriched_bar list) list" where
  "mixed_data = [(''TCS.NS'', [mixed_row, mixed_row, mixed_row])]"

definition mixed_buy_line :: report_row where
  "mixed_buy_line =
     \<lparr>Stock_Name = ''TCS.NS'', Signal = ''BUY'', Current_Price = Some 100,
      Entry_Zone = entry_zone (buy_signal ''TCS.NS'' mixed_row),
      Target_Price = Some 105, Stop_Loss = Some 103, Risk_Level = ''LOW'',
      Probability = Some 73.5,
      Reason = reason (buy_signal ''TCS.NS'' mixed_row) @ '' | Strong trend continuation''\<rparr>"

definition mixed_sell_line :: report_row where
  "mixed_sell_line =
     \<lparr>Stock_Name = ''TCS.NS'', Signal = ''SELL'', Current_Price = Some 100,
      Entry_Zone = entry_zone (sell_signal ''TCS.NS'' mixed_row),
      Target_Price = Some 95, Stop_Loss = Some 103, Risk_Level = ''LOW'',
      Probability = Some 73.5,
      Reason = reason (sell_signal ''TCS.NS'' mixed_row) @ '' | Strong trend continuation''\<rparr>"

section \<open>The BUY score\<close>

lemma buy_score_defined:
  assumes "SMA20 row = Some s20" "SMA50 row = Some s50" "SMA200 row = Some s200"
    "RSI14 row = Some r14" "MACD row = Some m" "MACDSignal row = Some ms"
    "VolumeRatio row = Some vr" "Ret5D row = Some r5"
  shows "buy_score row =
     Some ((if s50 < s20 then 20 else 0) + (if s200 < s50 then 15 else 0) +
           (if 40 \<le> r14 \<and> r14 \<le> 70 then 20 else 0) + (if ms < m then 20 else 0) +
           (if 1.2 < vr then 15 else 0) + min (max (r5 * 100) 0) 10)"
  using assms
  by (simp add: buy_score_def Let_def fadd_def fmul_def fgt_def flt_def fle_def
      py_min_def py_max_def min_def max_def)

text \<open>
  C1. On a row whose indicators are all numbers (as every row of an enriched table
  is), the BUY score is the sum
  \<open>20[SMA20 > SMA50] + 15[SMA50 > SMA200] + 20[40 \<le> RSI14 \<le> 70] + 20[MACD > MACDSignal] +
   15[VolumeRatio > 1.2] + clamp(Ret5D * 100, 0, 10)\<close>, it lies between 0 and 100, and a
  row with SMA20 > SMA50 > SMA200, RSI14 = 55, MACD > MACDSignal, VolumeRatio = 1.5
  and Ret5D = 0.2 scores exactly 100.
\<close>

theorem buy_score_additive:
  assumes "SMA20 row = Some s20" "SMA50 row = Some s50" "SMA200 row = Some s200"
    "RSI14 row = Some r14" "MACD row = Some m" "MACDSignal row = Some ms"
    "VolumeRatio row = Some vr" "Ret5D row = Some r5"
  shows "(\<exists>x. buy_score row = Some x \<and>
            x = (if s50 < s20 then 20 else 0) + (if s200 < s50 then 15 else 0) +
                (if 40 \<le> r14 \<and> r14 \<le> 70 then 20 else 0) + (if ms < m then 20 else 0) +
                (if 1.2 < vr then 15 else 0) + min (max (r5 * 100) 0) 10 \<and>
            0 \<le> x \<and> x \<le> 100) \<and>
         (s50 < s20 \<and> s200 < s50 \<and> r14 = 55 \<and> ms < m \<and> vr = 1.5 \<and> r5 = 0.2
            \<longrightarrow> buy_score row = Some 100)"
  unfolding buy_score_defined [OF assms]
  by (auto simp: min_def max_def)

theorem buy_score_additive_witness:
  "SMA20 bullish_row = Some 100 \<and> SMA50 bullish_row = Some 95 \<and> SMA200 bullish_row = Some 90 \<and>
   RSI14 bullish_row = Some 55 \<and> MACD bullish_row = Some 2 \<and> MACDSignal bullish_row = Some 1 \<and>
   VolumeRatio bullish_row = Some 1.5 \<and> Ret5D bullish_row = Some 0.2 \<and>
   buy_score bullish_row = Some 100"
  using buy_score_additive [of bullish_row 100 95 90 55 2 1 "1.5" "0.2"]
  by (simp add: bullish_row_def)

section \<open>The risk level\<close>

text \<open>
  C5. The risk level of a blended risk \<open>x\<close> is LOW exactly when \<open>x < 0.33\<close>, MEDIUM
  exactly when \<open>0.33 \<le> x < 0.66\<close> and HIGH otherwise (also for NaN); 0.33 itself is
  MEDIUM and 0.66 itself is HIGH. It is the level \<open>evaluate_risk\<close> reports.
\<close>

theorem risk_level_bins:
  "(risk_level_of (Some x) = ''LOW'' \<longleftrightarrow> x < 0.33) \<and>
   (risk_level_of (Some x) = ''MEDIUM'' \<longleftrightarrow> 0.33 \<le> x \<and> x < 0.66) \<and>
   (risk_level_of (Some x) = ''HIGH'' \<longleftrightarrow> 0.66 \<le> x) \<and>
   risk_level_of (Some 0.33) = ''MEDIUM'' \<and>
   risk_level_of (Some 0.66) = ''HIGH'' \<and>
   risk_level_of None = ''HIGH'' \<and>
   risk_level (evaluate_risk sg data) = risk_level_of (blended_risk_of data)"
  by (auto simp: risk_level_of_def flt_def evaluate_risk_def)

section \<open>The candidates of the signal generator\<close>

lemma scan_symbols_eq:
  "scan_symbols items buys sells =
     (buys @ map (\<lambda>(s, df). buy_signal s (last df))
               (filter (\<lambda>(s, df). df \<noteq> [] \<and> fge (buy_score (last df)) (Some 55)) items),
      sells @ map (\<lambda>(s, df). sell_signal s (last df))
                (filter (\<lambda>(s, df). df \<noteq> [] \<and> fge (sell_score (last df)) (Some 55)) items))"
proof (induction items buys sells rule: scan_symbols.induct)
  case (1 buys sells)
  show ?case by simp
next
  case (2 s df rest buys sells)
  show ?case
  proof (cases "df = []")
    case True
    with 2 show ?thesis by simp
  next
    case False
    with 2 show ?thesis by (simp add: Let_def)
  qed
qed

lemma symbol_buy_signal [simp]: "symbol (buy_signal s r) = s"
  by (simp add: buy_signal_def Let_def)

lemma symbol_sell_signal [simp]: "symbol (sell_signal s r) = s"
  by (simp add: sell_signal_def Let_def)

lemma signal_buy_signal [simp]: "signal (buy_signal s r) = ''BUY''"
  by (simp add: buy_signal_def Let_def)

lemma signal_sell_signal [simp]: "signal (sell_signal s r) = ''SELL''"
  by (simp add: sell_signal_def Let_def)

lemma score_buy_signal [simp]: "signal_score (buy_signal s r) = buy_score r"
  by (simp add: buy_signal_def Let_def)

lemma score_sell_signal [simp]: "signal_score (sell_signal s r) = sell_score r"
  by (simp add: sell_signal_def Let_def)

lemma mset_insort_desc: "mset (insort_desc key x xs) = add_mset x (mset xs)"
  by (induction xs) auto

lemma mset_sorted_desc: "mset (sorted_desc key xs) = mset xs"
  unfolding sorted_desc_def by (induction xs) (auto simp: mset_insort_desc)

lemma set_insort_desc: "set (insort_desc key x xs) = insert x (set xs)"
  by (induction xs) auto

lemma set_sorted_desc: "set (sorted_desc key xs) = set xs"
  by (metis mset_sorted_desc set_mset_mset)

lemma length_sorted_desc: "length (sorted_desc key xs) = length xs"
  by (metis mset_sorted_desc size_mset)

lemma filter_insort_desc:
  "filter (\<lambda>y. key y = k) (insort_desc key x xs) = filter (\<lambda>y. key y = k) (x # xs)"
  by (induction xs) (auto simp: flt_def split: option.splits)

lemma sorted_desc_stable:
  "filter (\<lambda>y. key y = k) (sorted_desc key xs) = filter (\<lambda>y. key y = k) xs"
  unfolding sorted_desc_def by (induction xs) (auto simp: filter_insort_desc)

lemma sorted_insort_desc:
  assumes "key x \<noteq> None" and "\<forall>y \<in> set xs. key y \<noteq> None"
    and "sorted_wrt (\<lambda>a b. fge (key a) (key b)) xs"
  shows "sorted_wrt (\<lambda>a b. fge (key a) (key b)) (insort_desc key x xs)"
  using assms
  by (induction xs) (auto simp: set_insort_desc flt_def fge_def fle_def split: option.splits)

lemma sorted_sorted_desc:
  "\<forall>y \<in> set xs. key y \<noteq> None \<Longrightarrow> sorted_wrt (\<lambda>a b. fge (key a) (key b)) (sorted_desc key xs)"
  unfolding sorted_desc_def
proof (induction xs)
  case Nil
  show ?case by simp
next
  case (Cons x xs)
  have "set (foldr (insort_desc key) xs []) = set xs"
    using set_sorted_desc [of key xs] by (simp add: sorted_desc_def)
  with Cons show ?case by (simp add: sorted_insort_desc)
qed

lemma buy_score_threshold_row: "buy_score threshold_row = Some 55"
  by (simp add: threshold_row_def buy_score_def Let_def fadd_def fmul_def fgt_def flt_def fle_def
      py_min_def py_max_def)

lemma sell_score_threshold_row: "sell_score threshold_row = Some 36"
  by (simp add: threshold_row_def sell_score_def Let_def fadd_def fmul_def fgt_def flt_def fle_def
      py_min_def py_max_def fabs_def)

lemma buy_score_below_row: "buy_score below_row = Some 54.99"
  by (simp add: below_row_def buy_score_def Let_def fadd_def fmul_def fgt_def flt_def fle_def
      py_min_def py_max_def)

lemma sell_score_below_row: "sell_score below_row = Some 40"
  by (simp add: below_row_def sell_score_def Let_def fadd_def fmul_def fgt_def flt_def fle_def
      py_min_def py_max_def fabs_def)

lemma scan_threshold_data:
  "scan_symbols threshold_data [] [] = ([buy_signal ''TCS.NS'' threshold_row], [])"
  by (simp add: threshold_data_def buy_score_threshold_row sell_score_threshold_row
      buy_score_below_row sell_score_below_row fge_def fle_def)

lemma buys_member:
  "scan_symbols items [] [] = (buys, sells) \<Longrightarrow>
   sg \<in> set buys \<longleftrightarrow>
     (\<exists>s df. (s, df) \<in> set items \<and> df \<noteq> [] \<and> fge (buy_score (last df)) (Some 55) \<and>
             sg = buy_signal s (last df))"
  by (fastforce simp: scan_symbols_eq image_iff)

lemma sells_member:
  "scan_symbols items [] [] = (buys, sells) \<Longrightarrow>
   sg \<in> set sells \<longleftrightarrow>
     (\<exists>s df. (s, df) \<in> set items \<and> df \<noteq> [] \<and> fge (sell_score (last df)) (Some 55) \<and>
             sg = sell_signal s (last df))"
  by (fastforce simp: scan_symbols_eq image_iff)

lemma scan_symbols_length:
  "scan_symbols items [] [] = (buys, sells) \<Longrightarrow>
   length buys \<le> length items \<and> length sells \<le> length items"
  by (auto simp: scan_symbols_eq)

lemma slice_to_all: "int (length xs) \<le> n \<Longrightarrow> slice_to xs n = xs"
  by (simp add: slice_to_def)

lemma generate_signals_eq:
  "scan_symbols indicator_data [] [] = (buys, sells) \<Longrightarrow>
   generate_signals indicator_data top_n =
     slice_to (sorted_desc signal_score buys) top_n @ slice_to (sorted_desc signal_score sells) top_n"
  by (simp add: generate_signals_def)

lemma generate_signals_untruncated:
  assumes "scan_symbols indicator_data [] [] = (buys, sells)"
    and "int (length indicator_data) \<le> top_n"
  shows "set (generate_signals indicator_data top_n) = set buys \<union> set sells"
proof -
  from scan_symbols_length [OF assms(1)] assms(2)
  have "int (length (sorted_desc signal_score buys)) \<le> top_n"
    "int (length (sorted_desc signal_score sells)) \<le> top_n"
    by (simp_all add: length_sorted_desc)
  then show ?thesis
    by (simp add: generate_signals_eq [OF assms(1)] slice_to_all set_sorted_desc)
qed

text \<open>
  C2. For a symbol with a non-empty enriched table, the loop of \<open>generate_signals\<close>
  appends a BUY signal exactly when the BUY score of the latest row is at least 55,
  and a SELL signal exactly when its SELL score is: a score of 55 is in, 54.99 is
  out. With a cap that cuts nothing off, the same holds of the returned list.
\<close>

theorem signal_emitted_iff_threshold:
  assumes "distinct (map fst indicator_data)" and "(s, df) \<in> set indicator_data" and "df \<noteq> []"
    and "scan_symbols indicator_data [] [] = (buys, sells)"
  shows "((\<exists>sg \<in> set buys. symbol sg = s) \<longleftrightarrow> fge (buy_score (last df)) (Some 55)) \<and>
         ((\<exists>sg \<in> set sells. symbol sg = s) \<longleftrightarrow> fge (sell_score (last df)) (Some 55)) \<and>
         (buy_score (last df) = Some 55 \<longrightarrow> buy_signal s (last df) \<in> set buys) \<and>
         (buy_score (last df) = Some 54.99 \<longrightarrow> (\<forall>sg \<in> set buys. symbol sg \<noteq> s)) \<and>
         (int (length indicator_data) \<le> top_n \<longrightarrow>
            ((\<exists>sg \<in> set (generate_signals indicator_data top_n). symbol sg = s \<and> signal sg = ''BUY'')
               \<longleftrightarrow> fge (buy_score (last df)) (Some 55)) \<and>
            ((\<exists>sg \<in> set (generate_signals indicator_data top_n). symbol sg = s \<and> signal sg = ''SELL'')
               \<longleftrightarrow> fge (sell_score (last df)) (Some 55)))"
proof -
  note b = buys_member [OF assms(4)] and c = sells_member [OF assms(4)]
  have same: "df' = df" if "(s, df') \<in> set indicator_data" for df'
    using eq_key_imp_eq_value [OF assms(1) that assms(2)] .
  have 1: "(\<exists>sg \<in> set buys. symbol sg = s) \<longleftrightarrow> fge (buy_score (last df)) (Some 55)"
  proof
    assume "\<exists>sg \<in> set buys. symbol sg = s"
    then obtain sg where "sg \<in> set buys" "symbol sg = s" by blast
    then obtain s' df' where "(s', df') \<in> set indicator_data" "fge (buy_score (last df')) (Some 55)"
      "s' = s"
      unfolding b by auto
    with same show "fge (buy_score (last df)) (Some 55)" by blast
  next
    assume "fge (buy_score (last df)) (Some 55)"
    with assms(2,3) have "buy_signal s (last df) \<in> set buys" unfolding b by blast
    then show "\<exists>sg \<in> set buys. symbol sg = s" by (rule bexI [rotated]) simp
  qed
  have 2: "(\<exists>sg \<in> set sells. symbol sg = s) \<longleftrightarrow> fge (sell_score (last df)) (Some 55)"
  proof
    assume "\<exists>sg \<in> set sells. symbol sg = s"
    then obtain sg where "sg \<in> set sells" "symbol sg = s" by blast
    then obtain s' df' where "(s', df') \<in> set indicator_data" "fge (sell_score (last df')) (Some 55)"
      "s' = s"
      unfolding c by auto
    with same show "fge (sell_score (last df)) (Some 55)" by blast
  next
    assume "fge (sell_score (last df)) (Some 55)"
    with assms(2,3) have "sell_signal s (last df) \<in> set sells" unfolding c by blast
    then show "\<exists>sg \<in> set sells. symbol sg = s" by (rule bexI [rotated]) simp
  qed
  have 3: "buy_signal s (last df) \<in> set buys" if "buy_score (last df) = Some 55"
  proof -
    from that have "fge (buy_score (last df)) (Some 55)" by (simp add: fge_def fle_def)
    with assms(2,3) show ?thesis unfolding b by blast
  qed
  have 4: "\<forall>sg \<in> set buys. symbol sg \<noteq> s" if "buy_score (last df) = Some 54.99"
    using 1 that by (auto simp: fge_def fle_def)
  have buy_kind: "signal sg = ''BUY''" if "sg \<in> set buys" for sg
    using that unfolding b by auto
  have sell_kind: "signal sg = ''SELL''" if "sg \<in> set sells" for sg
    using that unfolding c by auto
  have 5: "(\<exists>sg \<in> set (generate_signals indicator_data top_n). symbol sg = s \<and> signal sg = ''BUY'')
             \<longleftrightarrow> fge (buy_score (last df)) (Some 55)"
    if "int (length indicator_data) \<le> top_n"
  proof -
    have "(\<exists>sg \<in> set (generate_signals indicator_data top_n). symbol sg = s \<and> signal sg = ''BUY'')
            \<longleftrightarrow> (\<exists>sg \<in> set buys. symbol sg = s)"
      unfolding generate_signals_untruncated [OF assms(4) that]
      using buy_kind sell_kind by auto
    with 1 show ?thesis by simp
  qed
  have 6: "(\<exists>sg \<in> set (generate_signals indicator_data top_n). symbol sg = s \<and> signal sg = ''SELL'')
             \<longleftrightarrow> fge (sell_score (last df)) (Some 55)"
    if "int (length indicator_data) \<le> top_n"
  proof -
    have "(\<exists>sg \<in> set (generate_signals indicator_data top_n). symbol sg = s \<and> signal sg = ''SELL'')
            \<longleftrightarrow> (\<exists>sg \<in> set sells. symbol sg = s)"
      unfolding generate_signals_untruncated [OF assms(4) that]
      using buy_kind sell_kind by auto
    with 2 show ?thesis by simp
  qed
  from 1 2 3 4 5 6 show ?thesis by blast
qed

theorem signal_emitted_iff_threshold_witness:
  "distinct (map fst threshold_data) \<and>
   (''TCS.NS'', [bullish_row, threshold_row]) \<in> set threshold_data \<and>
   (''INFY.NS'', [below_row]) \<in> set threshold_data \<and>
   buy_score (last [bullish_row, threshold_row]) = Some 55 \<and>
   buy_score (last [below_row]) = Some 54.99 \<and>
   scan_symbols threshold_data [] [] = ([buy_signal ''TCS.NS'' threshold_row], []) \<and>
   buy_signal ''TCS.NS'' (last [bullish_row, threshold_row]) \<in> set [buy_signal ''TCS.NS'' threshold_row] \<and>
   \<not> (\<exists>sg \<in> set [buy_signal ''TCS.NS'' threshold_row]. symbol sg = ''INFY.NS'') \<and>
   (\<exists>sg \<in> set (generate_signals threshold_data 10). symbol sg = ''TCS.NS'' \<and> signal sg = ''BUY'') \<and>
   \<not> (\<exists>sg \<in> set (generate_signals threshold_data 10). symbol sg = ''INFY.NS'' \<and> signal sg = ''BUY'')"
proof -
  have d: "distinct (map fst threshold_data)"
    by (simp add: threshold_data_def)
  have m1: "(''TCS.NS'', [bullish_row, threshold_row]) \<in> set threshold_data"
    and m2: "(''INFY.NS'', [below_row]) \<in> set threshold_data"
    by (simp_all add: threshold_data_def)
  have n1: "[bullish_row, threshold_row] \<noteq> []" and n2: "[below_row] \<noteq> []"
    by simp_all
  have len: "int (length threshold_data) \<le> 10"
    by (simp add: threshold_data_def)
  show ?thesis
    using signal_emitted_iff_threshold [OF d m1 n1 scan_threshold_data, of 10]
      signal_emitted_iff_threshold [OF d m2 n2 scan_threshold_data, of 10]
      d m1 m2 len scan_threshold_data
    by (simp add: buy_score_threshold_row buy_score_below_row fge_def fle_def)
qed

section \<open>Ranking and truncation\<close>

lemma buy_score_bull: "buy_score (bull r5) = Some (90 + min (max (r5 * 100) 0) 10)"
  by (simp add: bull_def bullish_row_def buy_score_def Let_def fadd_def fmul_def fgt_def flt_def
      fle_def py_min_def py_max_def min_def max_def)

lemma sell_score_bull: "0 \<le> r5 \<Longrightarrow> sell_score (bull r5) = Some 0"
  by (simp add: bull_def bullish_row_def sell_score_def Let_def fadd_def fmul_def fgt_def flt_def
      fle_def py_min_def py_max_def fabs_def)

lemma scan_rank_data:
  "scan_symbols rank_data [] [] =
     ([buy_signal ''INFY.NS'' (bull 0.05), buy_signal ''TCS.NS'' (bull 0.2),
       buy_signal ''ITC.NS'' (bull 0), buy_signal ''SBIN.NS'' (bull 0.2),
       buy_signal ''LT.NS'' (bull 0.05)], [])"
  by (simp add: rank_data_def buy_score_bull sell_score_bull fge_def fle_def Let_def)

lemma sorted_rank_data:
  "sorted_desc signal_score
     [buy_signal ''INFY.NS'' (bull 0.05), buy_signal ''TCS.NS'' (bull 0.2),
      buy_signal ''ITC.NS'' (bull 0), buy_signal ''SBIN.NS'' (bull 0.2),
      buy_signal ''LT.NS'' (bull 0.05)] =
     [buy_signal ''TCS.NS'' (bull 0.2), buy_signal ''SBIN.NS'' (bull 0.2),
      buy_signal ''INFY.NS'' (bull 0.05), buy_signal ''LT.NS'' (bull 0.05),
      buy_signal ''ITC.NS'' (bull 0)]"
  unfolding sorted_desc_def foldr.simps o_apply id_apply
  by (simp add: buy_score_bull flt_def)

lemma generate_rank_data_2:
  "generate_signals rank_data 2 = [buy_signal ''TCS.NS'' (bull 0.2), buy_signal ''SBIN.NS'' (bull 0.2)]"
  unfolding generate_signals_eq [OF scan_rank_data] sorted_rank_data
  by (simp add: slice_to_def sorted_desc_def)

lemma generate_rank_data_neg:
  "generate_signals rank_data (- 1) =
     [buy_signal ''TCS.NS'' (bull 0.2), buy_signal ''SBIN.NS'' (bull 0.2),
      buy_signal ''INFY.NS'' (bull 0.05), buy_signal ''LT.NS'' (bull 0.05)]"
  unfolding generate_signals_eq [OF scan_rank_data] sorted_rank_data
  by (simp add: slice_to_def sorted_desc_def)

lemma candidate_scores:
  assumes "scan_symbols items [] [] = (buys, sells)"
  shows "\<forall>sg \<in> set buys. signal_score sg \<noteq> None \<and> signal sg = ''BUY''"
    and "\<forall>sg \<in> set sells. signal_score sg \<noteq> None \<and> signal sg = ''SELL''"
  using buys_member [OF assms] sells_member [OF assms]
  by (auto simp: fge_def fle_def split: option.splits)

lemma candidates_in_input_order:
  assumes "scan_symbols items [] [] = (buys, sells)"
  shows "subseq (map symbol buys) (map fst items)" and "subseq (map symbol sells) (map fst items)"
proof -
  have b: "map symbol buys =
      map fst (filter (\<lambda>(s, df). df \<noteq> [] \<and> fge (buy_score (last df)) (Some 55)) items)"
    and c: "map symbol sells =
      map fst (filter (\<lambda>(s, df). df \<noteq> [] \<and> fge (sell_score (last df)) (Some 55)) items)"
    using assms by (auto simp: scan_symbols_eq)
  show "subseq (map symbol buys) (map fst items)"
    unfolding b by (intro subseq_map subseq_filter_left)
  show "subseq (map symbol sells) (map fst items)"
    unfolding c by (intro subseq_map subseq_filter_left)
qed

text \<open>What a prefix of a stable descending sort has.\<close>

lemma top_of_sorted_desc:
  fixes key :: "'a \<Rightarrow> pyfloat" and n :: nat
  assumes "\<forall>y \<in> set xs. key y \<noteq> None" and "ys = take n (sorted_desc key xs)"
  shows "length ys = min n (length xs)"
    and "sorted_wrt (\<lambda>a b. fge (key a) (key b)) ys"
    and "\<exists>rest. mset (ys @ rest) = mset xs \<and> (\<forall>a \<in> set ys. \<forall>b \<in> set rest. fge (key a) (key b))"
    and "prefix (filter (\<lambda>y. key y = k) ys) (filter (\<lambda>y. key y = k) xs)"
proof -
  let ?s = "sorted_desc key xs"
  have s: "sorted_wrt (\<lambda>a b. fge (key a) (key b)) ?s"
    using assms(1) by (rule sorted_sorted_desc)
  have split: "?s = ys @ drop n ?s"
    by (simp add: assms(2))
  show "length ys = min n (length xs)"
    by (simp add: assms(2) length_sorted_desc min.commute)
  from s split show "sorted_wrt (\<lambda>a b. fge (key a) (key b)) ys"
    by (metis sorted_wrt_append)
  have "mset (ys @ drop n ?s) = mset xs"
    using split mset_sorted_desc [of key xs] by simp
  moreover have "\<forall>a \<in> set ys. \<forall>b \<in> set (drop n ?s). fge (key a) (key b)"
    using s split by (metis sorted_wrt_append)
  ultimately show "\<exists>rest. mset (ys @ rest) = mset xs \<and>
      (\<forall>a \<in> set ys. \<forall>b \<in> set rest. fge (key a) (key b))"
    by blast
  have "filter (\<lambda>y. key y = k) xs = filter (\<lambda>y. key y = k) ys @ filter (\<lambda>y. key y = k) (drop n ?s)"
    using split sorted_desc_stable [of key k xs] by (metis filter_append)
  then show "prefix (filter (\<lambda>y. key y = k) ys) (filter (\<lambda>y. key y = k) xs)"
    by (simp add: prefix_def)
qed

lemma filter_direction:
  assumes "\<forall>sg \<in> set bs. signal sg = ''BUY''" and "\<forall>sg \<in> set ss. signal sg = ''SELL''"
  shows "filter (\<lambda>sg. signal sg = ''BUY'') (bs @ ss) = bs"
    and "filter (\<lambda>sg. signal sg = ''SELL'') (bs @ ss) = ss"
proof -
  have "filter (\<lambda>sg. signal sg = ''BUY'') bs = bs" "filter (\<lambda>sg. signal sg = ''BUY'') ss = []"
    "filter (\<lambda>sg. signal sg = ''SELL'') bs = []" "filter (\<lambda>sg. signal sg = ''SELL'') ss = ss"
    using assms by (auto simp: filter_empty_conv)
  then show "filter (\<lambda>sg. signal sg = ''BUY'') (bs @ ss) = bs"
    and "filter (\<lambda>sg. signal sg = ''SELL'') (bs @ ss) = ss"
    by simp_all
qed

text \<open>
  C3. For every mapping and every cap \<open>top_n \<ge> 0\<close>, the returned list is the BUY
  part followed by the SELL part; each part has at most \<open>top_n\<close> entries (all
  candidates when there are fewer), is in descending order of the signal score,
  holds the best candidates by score (no candidate left out scores more than one
  kept), and keeps candidates of equal score in the order of the loop, which is the
  order of the symbols in the input mapping. With \<open>top_n = 2\<close> and five BUY
  candidates it returns two BUY signals.
\<close>

theorem generate_signals_ranked:
  assumes "0 \<le> top_n" and "scan_symbols indicator_data [] [] = (buys, sells)"
    and "bs = filter (\<lambda>sg. signal sg = ''BUY'') (generate_signals indicator_data top_n)"
    and "ss = filter (\<lambda>sg. signal sg = ''SELL'') (generate_signals indicator_data top_n)"
  shows "generate_signals indicator_data top_n = bs @ ss \<and>
         int (length bs) \<le> top_n \<and> int (length ss) \<le> top_n \<and>
         length bs = min (nat top_n) (length buys) \<and> length ss = min (nat top_n) (length sells) \<and>
         sorted_wrt (\<lambda>a b. fge (signal_score a) (signal_score b)) bs \<and>
         sorted_wrt (\<lambda>a b. fge (signal_score a) (signal_score b)) ss \<and>
         (\<exists>rest. mset (bs @ rest) = mset buys \<and>
            (\<forall>a \<in> set bs. \<forall>b \<in> set rest. fge (signal_score a) (signal_score b))) \<and>
         (\<exists>rest. mset (ss @ rest) = mset sells \<and>
            (\<forall>a \<in> set ss. \<forall>b \<in> set rest. fge (signal_score a) (signal_score b))) \<and>
         (\<forall>k. prefix (filter (\<lambda>sg. signal_score sg = k) bs) (filter (\<lambda>sg. signal_score sg = k) buys)) \<and>
         (\<forall>k. prefix (filter (\<lambda>sg. signal_score sg = k) ss) (filter (\<lambda>sg. signal_score sg = k) sells)) \<and>
         subseq (map symbol buys) (map fst indicator_data) \<and>
         subseq (map symbol sells) (map fst indicator_data) \<and>
         (top_n = 2 \<and> length buys = 5 \<longrightarrow> length bs = 2)"
proof -
  let ?b = "take (nat top_n) (sorted_desc signal_score buys)"
  let ?s = "take (nat top_n) (sorted_desc signal_score sells)"
  note kinds = candidate_scores [OF assms(2)]
  have out: "generate_signals indicator_data top_n = ?b @ ?s"
    using assms(1) by (simp add: generate_signals_eq [OF assms(2)] slice_to_def)
  have "\<forall>sg \<in> set ?b. signal sg = ''BUY''" "\<forall>sg \<in> set ?s. signal sg = ''SELL''"
    using kinds by (auto dest!: in_set_takeD simp: set_sorted_desc)
  from filter_direction [OF this] have bs: "bs = ?b" and ss: "ss = ?s"
    by (simp_all add: assms(3,4) out)
  have kb: "\<forall>sg \<in> set buys. signal_score sg \<noteq> None" and ks: "\<forall>sg \<in> set sells. signal_score sg \<noteq> None"
    using kinds by blast+
  note tb = top_of_sorted_desc [OF kb bs] and ts = top_of_sorted_desc [OF ks ss]
  have lb: "int (length bs) \<le> top_n"
    using tb(1) assms(1) by (simp add: min_def split: if_splits)
  have ls: "int (length ss) \<le> top_n"
    using ts(1) assms(1) by (simp add: min_def split: if_splits)
  have five: "top_n = 2 \<and> length buys = 5 \<longrightarrow> length bs = 2"
    using tb(1) by simp
  have o: "generate_signals indicator_data top_n = bs @ ss"
    by (simp only: out bs ss)
  note order = candidates_in_input_order [OF assms(2)]
  from tb(4) have pb: "\<forall>k. prefix (filter (\<lambda>sg. signal_score sg = k) bs)
      (filter (\<lambda>sg. signal_score sg = k) buys)"
    by (rule allI)
  from ts(4) have ps: "\<forall>k. prefix (filter (\<lambda>sg. signal_score sg = k) ss)
      (filter (\<lambda>sg. signal_score sg = k) sells)"
    by (rule allI)
  from o lb ls tb(1) ts(1) tb(2) ts(2) tb(3) ts(3) pb ps order(1) order(2) five
  show ?thesis by (intro conjI)
qed

theorem generate_signals_ranked_witness:
  "(0::int) \<le> 2 \<and>
   scan_symbols rank_data [] [] =
     ([buy_signal ''INFY.NS'' (bull 0.05), buy_signal ''TCS.NS'' (bull 0.2),
       buy_signal ''ITC.NS'' (bull 0), buy_signal ''SBIN.NS'' (bull 0.2),
       buy_signal ''LT.NS'' (bull 0.05)], []) \<and>
   map signal_score (generate_signals rank_data 10) = [Some 100, Some 100, Some 95, Some 95, Some 90] \<and>
   map symbol (generate_signals rank_data 10) =
     [''TCS.NS'', ''SBIN.NS'', ''INFY.NS'', ''LT.NS'', ''ITC.NS''] \<and>
   map symbol (generate_signals rank_data 2) = [''TCS.NS'', ''SBIN.NS''] \<and>
   length (filter (\<lambda>sg. signal sg = ''BUY'') (generate_signals rank_data 2)) = 2"
proof -
  have ten: "generate_signals rank_data 10 =
     [buy_signal ''TCS.NS'' (bull 0.2), buy_signal ''SBIN.NS'' (bull 0.2),
      buy_signal ''INFY.NS'' (bull 0.05), buy_signal ''LT.NS'' (bull 0.05),
      buy_signal ''ITC.NS'' (bull 0)]"
    unfolding generate_signals_eq [OF scan_rank_data] sorted_rank_data
    by (simp add: slice_to_def sorted_desc_def)
  have z: "(0::int) \<le> 2" by simp
  from generate_signals_ranked [OF z scan_rank_data refl refl]
  have "length (filter (\<lambda>sg. signal sg = ''BUY'') (generate_signals rank_data 2)) = 2"
    by simp
  then show ?thesis
    using scan_rank_data
    by (simp add: ten generate_rank_data_2 buy_score_bull)
qed

text \<open>
  Outside the domain of a cap: a negative \<open>top_n\<close> is a slice bound counted from
  the end, so \<open>top_n = -1\<close> drops the last candidate of each direction only.
\<close>

lemma generate_signals_negative_cap:
  "map symbol (generate_signals rank_data (- 1)) = [''TCS.NS'', ''SBIN.NS'', ''INFY.NS'', ''LT.NS''] \<and>
   \<not> int (length (filter (\<lambda>sg. signal sg = ''BUY'') (generate_signals rank_data (- 1)))) \<le> - 1"
  by (simp add: generate_rank_data_neg)

section \<open>The probability estimate\<close>

lemma round_half_even_bounds:
  "of_int (round_half_even x) \<le> x + 1 / 2" "x - 1 / 2 \<le> of_int (round_half_even x)"
  unfolding round_half_even_def Let_def by (auto split: if_splits) linarith+

lemma round_half_even_mono:
  assumes "x \<le> y"
  shows "round_half_even x \<le> round_half_even y"
proof (cases "\<lfloor>x\<rfloor> = \<lfloor>y\<rfloor>")
  case True
  with assms show ?thesis
    unfolding round_half_even_def Let_def by (auto split: if_splits)
next
  case False
  with assms have "\<lfloor>x\<rfloor> + 1 \<le> \<lfloor>y\<rfloor>"
    using floor_mono [OF assms] by linarith
  moreover have "round_half_even x \<le> \<lfloor>x\<rfloor> + 1"
    unfolding round_half_even_def Let_def by (auto split: if_splits)
  moreover have "\<lfloor>y\<rfloor> \<le> round_half_even y"
    unfolding round_half_even_def Let_def by (auto split: if_splits)
  ultimately show ?thesis by linarith
qed

lemma py_round_Some:
  "py_round (Some x) n = Some (of_int (round_half_even (x * 10 ^ n)) / 10 ^ n)"
  by (simp add: py_round_def)

lemma py_round_mono:
  assumes "x \<le> y"
  shows "real_of_int (round_half_even (x * 10 ^ n)) / 10 ^ n
           \<le> real_of_int (round_half_even (y * 10 ^ n)) / 10 ^ n"
proof -
  have "x * 10 ^ n \<le> y * 10 ^ n" using assms by simp
  then have "round_half_even (x * 10 ^ n) \<le> round_half_even (y * 10 ^ n)"
    by (rule round_half_even_mono)
  then show ?thesis by (simp add: divide_right_mono)
qed

lemma estimate_probability_value:
  assumes "risk_level r \<in> {''LOW'', ''MEDIUM'', ''HIGH''}" and "trend_stability r = Some t"
    and "signal_score s = Some a"
  shows "\<exists>p. estimate_probability s r = Inr p \<and>
           probability p =
             Some (real_of_int (round_half_even
               ((min (a / 100) 1 * 0.55 +
                 (if risk_level r = ''LOW'' then 0.85 else if risk_level r = ''MEDIUM'' then 0.65 else 0.45) * 0.30 +
                 t * 0.15) * 100 * 10 ^ 2))
                / 10 ^ 2)"
  using assms
  by (auto simp: estimate_probability_def getitem_def Let_def py_min_def flt_def fdiv_def fmul_def
      fadd_def py_round_def min_def)

text \<open>
  C6. Two trade signals whose risk profiles share the risk level (one of LOW, MEDIUM,
  HIGH) and the trend stability (a number): both get a probability estimate, it is
  \<open>round(100 * (0.55 * min(score / 100, 1) + 0.30 * risk_component + 0.15 * trend_stability), 2)\<close>,
  and the signal with the greater or equal score gets the greater or equal
  probability.
\<close>

theorem probability_monotone_in_score:
  assumes "risk_level r1 = risk_level r2" and "trend_stability r1 = trend_stability r2"
    and "risk_level r1 \<in> {''LOW'', ''MEDIUM'', ''HIGH''}" and "trend_stability r1 = Some t"
    and "signal_score s1 = Some a" and "signal_score s2 = Some b" and "b \<le> a"
  shows "\<exists>p1 p2 x y.
           estimate_probability s1 r1 = Inr p1 \<and> estimate_probability s2 r2 = Inr p2 \<and>
           probability p1 = Some x \<and> probability p2 = Some y \<and> y \<le> x \<and>
           x = real_of_int (round_half_even
                 (100 * (0.55 * min (a / 100) 1 +
                         0.30 * (if risk_level r1 = ''LOW'' then 0.85
                                 else if risk_level r1 = ''MEDIUM'' then 0.65 else 0.45) +
                         0.15 * t) * 10 ^ 2)) / 10 ^ 2"
proof -
  let ?c = "(if risk_level r1 = ''LOW'' then 0.85 else if risk_level r1 = ''MEDIUM'' then 0.65 else 0.45) :: real"
  let ?f = "\<lambda>v. (min (v / 100) 1 * 0.55 + ?c * 0.30 + t * 0.15) * 100"
  from estimate_probability_value [OF assms(3,4,5)]
  obtain p1 where p1: "estimate_probability s1 r1 = Inr p1"
    "probability p1 = Some (real_of_int (round_half_even (?f a * 10 ^ 2)) / 10 ^ 2)"
    by blast
  have "risk_level r2 \<in> {''LOW'', ''MEDIUM'', ''HIGH''}" "trend_stability r2 = Some t"
    using assms(1,2,3,4) by simp_all
  from estimate_probability_value [OF this assms(6)]
  obtain p2 where p2: "estimate_probability s2 r2 = Inr p2"
    "probability p2 = Some (real_of_int (round_half_even (?f b * 10 ^ 2)) / 10 ^ 2)"
    unfolding assms(1) [symmetric] by blast
  have "?f b \<le> ?f a"
    using assms(7) by (simp add: min_def)
  then have le: "real_of_int (round_half_even (?f b * 10 ^ 2)) / 10 ^ 2
      \<le> real_of_int (round_half_even (?f a * 10 ^ 2)) / 10 ^ 2"
    by (rule py_round_mono)
  have form: "?f a = 100 * (0.55 * min (a / 100) 1 + 0.30 * ?c + 0.15 * t)"
    by (simp add: algebra_simps)
  from p1 p2 le show ?thesis
    unfolding form by blast
qed

lemma round_half_even_of_int [simp]: "round_half_even (of_int n) = n"
  by (simp add: round_half_even_def)

lemma strong_probability:
  "estimate_probability strong_signal calm_profile =
     Inr \<lparr>probability = Some 94, confidence_note = ''Strong trend continuation''\<rparr>"
proof -
  have "round_half_even 9400 = 9400"
    using round_half_even_of_int [of 9400] by simp
  then show ?thesis
    by (simp add: estimate_probability_def strong_signal_def calm_profile_def buy_score_bull
        getitem_def Let_def py_min_def flt_def fdiv_def fmul_def fadd_def py_round_def fge_def fle_def)
qed

lemma weaker_probability:
  "estimate_probability weaker_signal calm_profile =
     Inr \<lparr>probability = Some 91.25, confidence_note = ''Strong trend continuation''\<rparr>"
proof -
  have "round_half_even 9125 = 9125"
    using round_half_even_of_int [of 9125] by simp
  then show ?thesis
    by (simp add: estimate_probability_def weaker_signal_def calm_profile_def buy_score_bull
        getitem_def Let_def py_min_def flt_def fdiv_def fmul_def fadd_def py_round_def fge_def fle_def)
qed

theorem probability_monotone_in_score_witness:
  "risk_level calm_profile = ''LOW'' \<and> trend_stability calm_profile = Some 0.9 \<and>
   signal_score strong_signal = Some 100 \<and> signal_score weaker_signal = Some 95 \<and>
   (95::real) \<le> 100 \<and>
   estimate_probability strong_signal calm_profile =
     Inr \<lparr>probability = Some 94, confidence_note = ''Strong trend continuation''\<rparr> \<and>
   estimate_probability weaker_signal calm_profile =
     Inr \<lparr>probability = Some 91.25, confidence_note = ''Strong trend continuation''\<rparr> \<and>
   (\<exists>p1 p2 x y. estimate_probability strong_signal calm_profile = Inr p1 \<and>
      estimate_probability weaker_signal calm_profile = Inr p2 \<and>
      probability p1 = Some x \<and> probability p2 = Some y \<and> y \<le> x)"
proof -
  have l: "risk_level calm_profile \<in> {''LOW'', ''MEDIUM'', ''HIGH''}"
    and t: "trend_stability calm_profile = Some 0.9"
    by (simp_all add: calm_profile_def)
  have a: "signal_score strong_signal = Some 100" and b: "signal_score weaker_signal = Some 95"
    by (simp_all add: strong_signal_def weaker_signal_def buy_score_bull)
  have le: "(95::real) \<le> 100" by simp
  from probability_monotone_in_score [OF refl refl l t a b le]
  have "\<exists>p1 p2 x y. estimate_probability strong_signal calm_profile = Inr p1 \<and>
      estimate_probability weaker_signal calm_profile = Inr p2 \<and>
      probability p1 = Some x \<and> probability p2 = Some y \<and> y \<le> x"
    by blast
  moreover have "risk_level calm_profile = ''LOW''"
    by (simp add: calm_profile_def)
  ultimately show ?thesis
    using t a b by (simp add: strong_probability weaker_probability)
qed

section \<open>Trend strength and trend stability\<close>

lemma Close_priced [simp]: "Close (priced c) = Some c"
  by (simp add: priced_def)

lemma length_stepped_table: "length stepped_table = 31"
  by (simp add: stepped_table_def)

lemma stepped_table_rows:
  "stepped_table ! 30 = priced 4" "stepped_table ! Suc 0 = priced 2" "stepped_table ! 0 = priced 1"
  by (simp_all add: stepped_table_def nth_append nth_Cons')

lemma trend_strength_stepped: "trend_strength_of stepped_table = Some 1"
  by (simp add: trend_strength_of_def length_stepped_table stepped_table_rows fabs_def fsub_def fdiv_def)

lemma pct_change_constant:
  assumes "c \<noteq> 0"
  shows "pct_change 1 (replicate (Suc n) (Some c)) = None # replicate n (Some 0)"
proof (rule nth_equalityI)
  show "length (pct_change 1 (replicate (Suc n) (Some c))) = length (None # replicate n (Some 0))"
    by (simp add: pct_change_def)
next
  fix i
  assume "i < length (pct_change 1 (replicate (Suc n) (Some c)))"
  then have i: "i < Suc n" by (simp add: pct_change_def)
  show "pct_change 1 (replicate (Suc n) (Some c)) ! i = (None # replicate n (Some 0)) ! i"
  proof (cases i)
    case 0
    then show ?thesis by (simp add: pct_change_def del: replicate_Suc upt_Suc)
  next
    case (Suc j)
    with i assms show ?thesis
      by (simp add: pct_change_def fsub_def fdiv_def del: replicate_Suc upt_Suc)
  qed
qed

lemma dropna_series_simps [simp]:
  "dropna_series [] = []" "dropna_series (None # xs) = dropna_series xs"
  "dropna_series (Some x # xs) = x # dropna_series xs"
  by (simp_all add: dropna_series_def)

lemma dropna_series_replicate [simp]: "dropna_series (replicate n (Some x)) = replicate n x"
  by (induction n) simp_all

lemma returns_of_constant:
  assumes "c \<noteq> 0"
  shows "returns_of (replicate (Suc n) (priced c)) = replicate n (Some 0)"
proof -
  have "map Close (replicate (Suc n) (priced c)) = replicate (Suc n) (Some c)"
    by (simp del: replicate_Suc)
  then show ?thesis
    unfolding returns_of_def
    by (simp add: pct_change_constant [OF assms, unfolded One_nat_def] del: replicate_Suc)
qed

lemma volatility_of_constant:
  assumes "c \<noteq> 0" and "2 \<le> n"
  shows "volatility_of (replicate (Suc n) (priced c)) = Some 0"
  using assms(2)
  by (simp add: volatility_of_def returns_of_constant [OF assms(1)] series_std_def Let_def fmul_def
      sum_list_replicate del: replicate_Suc)

text \<open>
  C4, as amended. On a table of at least 30 rows the trend strength is
  \<open>|Close[last] / Close[last - 29] - 1|\<close>: the earlier row is the 30th from the end
  (\<open>iloc[-30]\<close>), not the one 30 places before the last. On a shorter table it
  is 0. The trend stability is \<open>clamp(1 - |volatility - trend_strength|, 0, 1)\<close>, and
  the risk profile holds it rounded to four digits. (The closes are numbers, the
  earlier one not 0, and the volatility is a number.)
\<close>

theorem trend_strength_and_stability:
  "(30 \<le> length data \<and> Close (data ! (length data - 1)) = Some c1 \<and>
      Close (data ! (length data - 30)) = Some c0 \<and> c0 \<noteq> 0
      \<longrightarrow> trend_strength_of data = Some \<bar>c1 / c0 - 1\<bar>) \<and>
   (length data < 30 \<longrightarrow> trend_strength_of data = Some 0) \<and>
   (volatility_of data = Some v \<and> trend_strength_of data = Some ts
      \<longrightarrow> trend_stability_of data = Some (max 0 (min 1 (1 - \<bar>v - ts\<bar>))) \<and>
          trend_stability (evaluate_risk sg data) = py_round (Some (max 0 (min 1 (1 - \<bar>v - ts\<bar>)))) 4)"
proof (intro conjI impI)
  assume "30 \<le> length data \<and> Close (data ! (length data - 1)) = Some c1 \<and>
      Close (data ! (length data - 30)) = Some c0 \<and> c0 \<noteq> 0"
  then show "trend_strength_of data = Some \<bar>c1 / c0 - 1\<bar>"
    by (simp add: trend_strength_of_def fabs_def fsub_def fdiv_def)
next
  assume "length data < 30"
  then show "trend_strength_of data = Some 0"
    by (simp add: trend_strength_of_def)
next
  assume a: "volatility_of data = Some v \<and> trend_strength_of data = Some ts"
  then show st: "trend_stability_of data = Some (max 0 (min 1 (1 - \<bar>v - ts\<bar>)))"
    by (simp add: trend_stability_of_def py_max_def py_min_def fgt_def flt_def fsub_def fabs_def
        max_def min_def)
  then show "trend_stability (evaluate_risk sg data) = py_round (Some (max 0 (min 1 (1 - \<bar>v - ts\<bar>)))) 4"
    by (simp add: evaluate_risk_def)
qed

lemma length_flat_table: "length flat_table = 30"
  by (simp add: flat_table_def)

lemma volatility_flat_table: "volatility_of flat_table = Some 0"
proof -
  have "flat_table = replicate (Suc 29) (priced 100)"
    by (simp add: flat_table_def)
  then show ?thesis
    using volatility_of_constant [of 100 29] by simp
qed

lemma flat_table_rows: "i < 30 \<Longrightarrow> flat_table ! i = priced 100"
  by (simp add: flat_table_def)

theorem trend_strength_and_stability_witness:
  "30 \<le> length stepped_table \<and>
   Close (stepped_table ! (length stepped_table - 1)) = Some 4 \<and>
   Close (stepped_table ! (length stepped_table - 30)) = Some 2 \<and>
   trend_strength_of stepped_table = Some 1 \<and>
   length [priced 1, priced 2] < 30 \<and>
   trend_strength_of [priced 1, priced 2] = Some 0 \<and>
   volatility_of flat_table = Some 0 \<and>
   trend_strength_of flat_table = Some 0 \<and>
   trend_stability_of flat_table = Some 1"
proof -
  have a: "30 \<le> length stepped_table \<and> Close (stepped_table ! (length stepped_table - 1)) = Some 4 \<and>
      Close (stepped_table ! (length stepped_table - 30)) = Some 2 \<and> (2::real) \<noteq> 0"
    by (simp add: length_stepped_table stepped_table_rows)
  have b: "length [priced 1, priced 2] < 30"
    by simp
  have "30 \<le> length flat_table \<and> Close (flat_table ! (length flat_table - 1)) = Some 100 \<and>
      Close (flat_table ! (length flat_table - 30)) = Some 100 \<and> (100::real) \<noteq> 0"
    by (simp add: length_flat_table flat_table_rows)
  with trend_strength_and_stability [of flat_table 100 100]
  have c: "trend_strength_of flat_table = Some 0"
    by simp
  from trend_strength_and_stability [of stepped_table 4 2] a
    trend_strength_and_stability [of "[priced 1, priced 2]"] b
    trend_strength_and_stability [of flat_table _ _ 0 0] c volatility_flat_table
  show ?thesis
    by simp
qed

text \<open>
  The row 30 places before the last one is not the row the code reads: on 31 rows
  closing at 1, then 29 times at 2, then at 4, the code compares 4 with 2.
\<close>

theorem trend_strength_counterexample:
  "30 \<le> length stepped_table \<and>
   trend_strength_of stepped_table = Some 1 \<and>
   fabs (fsub (fdiv (Close (stepped_table ! (length stepped_table - 1)))
                    (Close (stepped_table ! (length stepped_table - 1 - 30)))) (Some 1)) = Some 3 \<and>
   trend_strength_of stepped_table \<noteq>
     fabs (fsub (fdiv (Close (stepped_table ! (length stepped_table - 1)))
                      (Close (stepped_table ! (length stepped_table - 1 - 30)))) (Some 1))"
  by (simp add: length_stepped_table stepped_table_rows trend_strength_stepped fabs_def fsub_def
      fdiv_def)

section \<open>The indicator engine\<close>

lemma enrich_symbol_Inr:
  "enrich_symbol lib df = Inr data \<longleftrightarrow> (\<exists>raw. with_indicators lib df = Inr raw \<and> data = filter notna raw)"
  by (cases "with_indicators lib df") (auto simp: enrich_symbol_def ebind_def dropna_def)

lemma update_fresh: "k \<notin> fst ` set al \<Longrightarrow> AList.update k v al = al @ [(k, v)]"
  by (induction al) auto

lemma enrich_from_eq:
  assumes "distinct (map fst items)" and "fst ` set items \<inter> fst ` set acc = {}"
  shows "enrich_from lib acc ws items =
           (acc @ List.map_filter (enriched_item lib) items, ws @ List.map_filter (warning_item lib) items)"
  using assms
proof (induction items arbitrary: acc ws)
  case Nil
  show ?case by simp
next
  case (Cons item items)
  obtain s df where item: "item = (s, df)" by (cases item)
  from Cons.prems have s_acc: "s \<notin> fst ` set acc" and s_items: "s \<notin> fst ` set items"
    and d: "distinct (map fst items)" and disj: "fst ` set items \<inter> fst ` set acc = {}"
    by (auto simp: item)
  show ?case
  proof (cases "enrich_symbol lib df")
    case (Inl exc)
    with Cons.IH [OF d disj] show ?thesis
      by (simp add: item enriched_item_def warning_item_def)
  next
    case (Inr data)
    have "fst ` set items \<inter> fst ` set (acc @ [(s, data)]) = {}"
      using disj s_items by auto
    from Cons.IH [OF d this] Inr show ?thesis
      by (simp add: item enriched_item_def warning_item_def
          update_fresh [OF s_acc])
  qed
qed

lemma enrich_with_indicators_eq:
  "distinct (map fst history) \<Longrightarrow>
   enrich_with_indicators lib history =
     (List.map_filter (enriched_item lib) history, List.map_filter (warning_item lib) history)"
  by (simp add: enrich_with_indicators_def enrich_from_eq)

lemma enrich_from_entries:
  "(s, data) \<in> set (fst (enrich_from lib acc ws items)) \<Longrightarrow>
   (s, data) \<in> set acc \<or> (\<exists>df. (s, df) \<in> set items \<and> enrich_symbol lib df = Inr data)"
proof (induction items arbitrary: acc ws)
  case Nil
  then show ?case by simp
next
  case (Cons item items)
  obtain s' df' where item: "item = (s', df')" by (cases item)
  show ?case
  proof (cases "enrich_symbol lib df'")
    case (Inl exc)
    with Cons show ?thesis by (fastforce simp: item)
  next
    case (Inr data')
    with Cons.prems have "(s, data) \<in> set (fst (enrich_from lib (AList.update s' data' acc) ws items))"
      by (simp add: item)
    from Cons.IH [OF this] have "(s, data) \<in> set (AList.update s' data' acc) \<or>
        (\<exists>df. (s, df) \<in> set items \<and> enrich_symbol lib df = Inr data)" .
    moreover have "set (AList.update s' data' acc) \<subseteq> insert (s', data') (set acc)"
      by (induction acc) auto
    ultimately show ?thesis using Inr by (auto simp: item)
  qed
qed

lemma cell_map_upt: "i < n \<Longrightarrow> cell (map f [0..<n]) i = f i"
  by (simp add: cell_def)

lemma cell_replicate: "i < n \<Longrightarrow> cell (replicate n x) i = x"
  by (simp add: cell_def)

lemma those_replicate: "those (replicate n (Some x)) = Some (replicate n x)"
  by (induction n) simp_all

lemma cell_rolling_mean_constant:
  assumes "i < n" and "0 < w"
  shows "cell (rolling_mean w (replicate n (Some c))) i = (if i + 1 < w then None else Some c)"
proof (cases "i + 1 < w")
  case True
  with assms show ?thesis by (simp add: rolling_mean_def cell_def)
next
  case False
  with assms have "take w (drop (i + 1 - w) (replicate n (Some c))) = replicate w (Some c)"
    by (simp add: min_def)
  with assms False show ?thesis
    by (simp add: rolling_mean_def cell_def those_replicate sum_list_replicate)
qed

lemma cell_pct_change_constant:
  assumes "i < n" and "c \<noteq> 0"
  shows "cell (pct_change k (replicate n (Some c))) i = (if i < k then None else Some 0)"
  using assms by (simp add: pct_change_def cell_def fsub_def fdiv_def)

lemma cumulate_constant:
  "i < n \<Longrightarrow>
   cumulate (+) acc (replicate n (Some x)) ! i =
     Some ((case acc of None \<Rightarrow> 0 | Some a \<Rightarrow> a) + real (i + 1) * x)"
proof (induction n arbitrary: acc i)
  case 0
  then show ?case by simp
next
  case (Suc n)
  show ?case
  proof (cases i)
    case 0
    then show ?thesis by (simp add: Let_def split: option.splits)
  next
    case (Suc j)
    with Suc.prems have "j < n" by simp
    from Suc.IH [OF this] Suc show ?thesis
      by (simp add: Let_def algebra_simps split: option.splits)
  qed
qed

lemma length_cumulate [simp]: "length (cumulate f acc xs) = length xs"
  by (induction f acc xs rule: cumulate.induct) (simp_all add: Let_def)

lemma map2_replicate: "map2 f (replicate n a) (replicate n b) = replicate n (f a b)"
  by simp

lemma cell_vwap_steady:
  assumes "i < n"
  shows "cell (calc_vwap (replicate n steady_bar)) i = Some 100"
proof -
  have v: "cumsum (replicate n (Some 100000)) ! i = Some (real (i + 1) * 100000)"
    "cumsum (replicate n (Some 1000)) ! i = Some (real (i + 1) * 1000)"
    using cumulate_constant [OF assms, of None] by (simp_all add: cumsum_def)
  have "calc_vwap (replicate n steady_bar) =
      map2 fdiv (cumsum (replicate n (Some 100000))) (cumsum (replicate n (Some 1000)))"
    by (simp add: calc_vwap_def Let_def steady_bar_def map2_replicate fdiv_def fadd_def fmul_def)
  moreover have "1000 + real i * 1000 \<noteq> 0"
    using of_nat_0_le_iff [of i, where ?'a = real] by (simp add: add_nonneg_eq_0_iff)
  then have "(100000 + real i * 100000) / (1000 + real i * 1000) = 100"
    by (simp add: field_simps)
  ultimately show ?thesis
    using assms v by (simp add: cell_def cumsum_def fdiv_def)
qed

lemma cell_map2:
  "i < length xs \<Longrightarrow> i < length ys \<Longrightarrow> cell (map2 f xs ys) i = f (cell xs i) (cell ys i)"
  by (simp add: cell_def)

lemma length_rolling_mean [simp]: "length (rolling_mean w xs) = length xs"
  by (simp add: rolling_mean_def)

lemma length_pct_change [simp]: "length (pct_change k xs) = length xs"
  by (simp add: pct_change_def)

lemma with_indicators_steady:
  assumes "0 < n"
  shows "with_indicators rolling_ta (replicate n steady_bar) = Inr (map steady_row [0..<n])"
proof -
  have close: "map Close (replicate n steady_bar) = replicate n (Some 100)"
    and volume: "map bar.Volume (replicate n steady_bar) = replicate n (Some 1000)"
    by (simp_all add: steady_bar_def)
  have ne: "replicate n (Some (100::real)) \<noteq> []"
    using assms by simp
  have rows: "bar.extend (replicate n steady_bar ! i)
      (enriched_bar.fields
         (cell (rolling_mean 14 (replicate n (Some 100))) i)
         (cell (rolling_mean 20 (replicate n (Some 100))) i)
         (cell (rolling_mean 50 (replicate n (Some 100))) i)
         (cell (rolling_mean 200 (replicate n (Some 100))) i)
         (cell (rolling_mean 20 (replicate n (Some 100))) i)
         (cell (calc_vwap (replicate n steady_bar)) i)
         (cell (rolling_mean 26 (replicate n (Some 100))) i)
         (cell (rolling_mean 34 (replicate n (Some 100))) i)
         (cell (map2 fsub (rolling_mean 26 (replicate n (Some 100)))
                  (rolling_mean 34 (replicate n (Some 100)))) i)
         (cell (pct_change 1 (replicate n (Some 100))) i)
         (cell (pct_change 5 (replicate n (Some 100))) i)
         (cell (rolling_mean 20 (replicate n (Some 1000))) i)
         (cell (map2 fdiv (replicate n (Some 1000)) (rolling_mean 20 (replicate n (Some 1000)))) i))
      = steady_row i" if "i < n" for i
    using that
    by (simp add: steady_row_def cell_map2 cell_rolling_mean_constant cell_pct_change_constant
        cell_vwap_steady cell_replicate fsub_def fdiv_def)
  have "with_indicators rolling_ta (replicate n steady_bar) =
      Inr (map (\<lambda>i. bar.extend (replicate n steady_bar ! i)
      (enriched_bar.fields
         (cell (rolling_mean 14 (replicate n (Some 100))) i)
         (cell (rolling_mean 20 (replicate n (Some 100))) i)
         (cell (rolling_mean 50 (replicate n (Some 100))) i)
         (cell (rolling_mean 200 (replicate n (Some 100))) i)
         (cell (rolling_mean 20 (replicate n (Some 100))) i)
         (cell (calc_vwap (replicate n steady_bar)) i)
         (cell (rolling_mean 26 (replicate n (Some 100))) i)
         (cell (rolling_mean 34 (replicate n (Some 100))) i)
         (cell (map2 fsub (rolling_mean 26 (replicate n (Some 100)))
                  (rolling_mean 34 (replicate n (Some 100)))) i)
         (cell (pct_change 1 (replicate n (Some 100))) i)
         (cell (pct_change 5 (replicate n (Some 100))) i)
         (cell (rolling_mean 20 (replicate n (Some 1000))) i)
         (cell (map2 fdiv (replicate n (Some 1000)) (rolling_mean 20 (replicate n (Some 1000)))) i)))
        [0..<n])"
    unfolding with_indicators_def Let_def close volume
    using ne by (simp add: rolling_ta_def rolling_indicator_def ebind_def)
  also have "\<dots> = Inr (map steady_row [0..<n])"
    using rows by simp
  finally show ?thesis .
qed

lemma notna_steady_row: "notna (steady_row i) \<longleftrightarrow> 199 \<le> i"
  by (auto simp: notna_def steady_row_def steady_bar_def bar.defs enriched_bar.defs)

lemma steady_row_late: "199 \<le> i \<Longrightarrow> steady_row i = steady_enriched"
  by (simp add: steady_row_def steady_enriched_def steady_bar_def bar.defs enriched_bar.defs)

lemma enrich_symbol_steady:
  assumes "0 < n"
  shows "enrich_symbol rolling_ta (replicate n steady_bar) = Inr (replicate (n - 199) steady_enriched)"
proof -
  have "filter notna (map steady_row [0..<n]) = map steady_row (filter (\<lambda>i. 199 \<le> i) [0..<n])"
    by (simp add: filter_map o_def notna_steady_row)
  also have "filter (\<lambda>i. 199 \<le> i) [0..<n] = [199..<n]"
  proof (cases "199 \<le> n")
    case True
    then have "[0..<n] = [0..<199] @ [199..<n]"
      by (metis le_add_diff_inverse upt_add_eq_append zero_le)
    then show ?thesis by (simp add: filter_empty_conv del: upt_Suc)
  next
    case False
    then show ?thesis by (simp add: filter_empty_conv)
  qed
  also have "map steady_row [199..<n] = map (\<lambda>_. steady_enriched) [199..<n]"
    by (rule map_cong) (simp_all add: steady_row_late)
  also have "\<dots> = replicate (n - 199) steady_enriched"
    by (simp add: map_replicate_const)
  finally show ?thesis
    by (simp add: enrich_symbol_def with_indicators_steady [OF assms] ebind_def dropna_def)
qed

lemma enrich_symbol_empty: "enrich_symbol rolling_ta [] = Inl (ValueError ''empty series'')"
  by (simp add: enrich_symbol_def with_indicators_def rolling_ta_def rolling_indicator_def ebind_def)

lemma enrich_symbol_steady_201:
  "enrich_symbol rolling_ta (replicate 201 steady_bar) = Inr [steady_enriched, steady_enriched]"
proof -
  have "replicate (201 - 199) steady_enriched = [steady_enriched, steady_enriched]"
    by (simp add: numeral_2_eq_2)
  with enrich_symbol_steady [of 201] show ?thesis by simp
qed

lemma enrich_steady_history:
  "enrich_with_indicators rolling_ta steady_history =
     ([(''TCS.NS'', [steady_enriched, steady_enriched])],
      [IndicatorEnrichmentFailed ''INFY.NS'' (ValueError ''empty series'')])"
  unfolding enrich_with_indicators_def steady_history_def
  by (simp add: enrich_symbol_steady_201 enrich_symbol_empty)

lemma map_filter_enriched_keys:
  "map fst (List.map_filter (enriched_item lib) items) =
     map fst (filter (\<lambda>item. enriched_item lib item \<noteq> None) items)"
  by (induction items) (auto simp: enriched_item_def split: sum.splits)

lemma distinct_enriched:
  "distinct (map fst items) \<Longrightarrow> distinct (map fst (List.map_filter (enriched_item lib) items))"
  by (simp add: map_filter_enriched_keys distinct_map_filter)

lemma enriched_member:
  "(s, data) \<in> set (List.map_filter (enriched_item lib) items) \<longleftrightarrow>
     (\<exists>df. (s, df) \<in> set items \<and> enrich_symbol lib df = Inr data)"
  by (induction items) (auto simp: enriched_item_def split: sum.splits)

lemma warning_member:
  "IndicatorEnrichmentFailed s exc \<in> set (List.map_filter (warning_item lib) items) \<longleftrightarrow>
     (\<exists>df. (s, df) \<in> set items \<and> enrich_symbol lib df = Inl exc)"
  by (induction items) (auto simp: warning_item_def split: sum.splits)

lemma map_filter_skip:
  "\<forall>x \<in> set xs. \<not> P x \<longrightarrow> f x = None \<Longrightarrow> List.map_filter f (filter P xs) = List.map_filter f xs"
  by (induction xs) (auto split: option.splits)

text \<open>
  C7. The enriched table of a symbol is the table with its indicator columns, the
  rows with a missing cell dropped: a row stays exactly when no cell of it is
  missing. So every row of every table that \<open>enrich_with_indicators\<close> returns has
  all thirteen derived columns defined.
\<close>

theorem enriched_rows_complete:
  "(enrich_symbol lib df = Inr data \<longrightarrow>
      (\<exists>raw. with_indicators lib df = Inr raw \<and> data = filter notna raw \<and>
         (\<forall>row \<in> set raw. row \<in> set data \<longleftrightarrow> notna row))) \<and>
   ((s, data) \<in> set (fst (enrich_with_indicators lib history)) \<longrightarrow>
      (\<exists>df'. (s, df') \<in> set history \<and> enrich_symbol lib df' = Inr data) \<and>
      (\<forall>row \<in> set data.
         RSI14 row \<noteq> None \<and> SMA20 row \<noteq> None \<and> SMA50 row \<noteq> None \<and> SMA200 row \<noteq> None \<and>
         EMA20 row \<noteq> None \<and> VWAP row \<noteq> None \<and> MACD row \<noteq> None \<and> MACDSignal row \<noteq> None \<and>
         MACDHist row \<noteq> None \<and> Ret1D row \<noteq> None \<and> Ret5D row \<noteq> None \<and>
         VolumeAvg20 row \<noteq> None \<and> VolumeRatio row \<noteq> None))"
proof (intro conjI impI)
  assume "enrich_symbol lib df = Inr data"
  then show "\<exists>raw. with_indicators lib df = Inr raw \<and> data = filter notna raw \<and>
         (\<forall>row \<in> set raw. row \<in> set data \<longleftrightarrow> notna row)"
    by (auto simp: enrich_symbol_Inr)
next
  assume "(s, data) \<in> set (fst (enrich_with_indicators lib history))"
  then show src: "\<exists>df'. (s, df') \<in> set history \<and> enrich_symbol lib df' = Inr data"
    using enrich_from_entries [of s data lib "[]" "[]" history]
    by (simp add: enrich_with_indicators_def)
  then have "\<forall>row \<in> set data. notna row"
    by (auto simp: enrich_symbol_Inr)
  then show "\<forall>row \<in> set data.
         RSI14 row \<noteq> None \<and> SMA20 row \<noteq> None \<and> SMA50 row \<noteq> None \<and> SMA200 row \<noteq> None \<and>
         EMA20 row \<noteq> None \<and> VWAP row \<noteq> None \<and> MACD row \<noteq> None \<and> MACDSignal row \<noteq> None \<and>
         MACDHist row \<noteq> None \<and> Ret1D row \<noteq> None \<and> Ret5D row \<noteq> None \<and>
         VolumeAvg20 row \<noteq> None \<and> VolumeRatio row \<noteq> None"
    by (simp add: notna_def)
qed

theorem enriched_rows_complete_witness:
  "enrich_symbol rolling_ta (replicate 201 steady_bar) = Inr [steady_enriched, steady_enriched] \<and>
   with_indicators rolling_ta (replicate 201 steady_bar) = Inr (map steady_row [0..<201]) \<and>
   [steady_enriched, steady_enriched] = filter notna (map steady_row [0..<201]) \<and>
   \<not> notna (steady_row 0) \<and> notna (steady_row 200) \<and>
   (''TCS.NS'', [steady_enriched, steady_enriched])
      \<in> set (fst (enrich_with_indicators rolling_ta steady_history)) \<and>
   RSI14 steady_enriched \<noteq> None \<and> SMA20 steady_enriched \<noteq> None \<and> SMA50 steady_enriched \<noteq> None \<and>
   SMA200 steady_enriched \<noteq> None \<and> EMA20 steady_enriched \<noteq> None \<and> VWAP steady_enriched \<noteq> None \<and>
   MACD steady_enriched \<noteq> None \<and> MACDSignal steady_enriched \<noteq> None \<and>
   MACDHist steady_enriched \<noteq> None \<and> Ret1D steady_enriched \<noteq> None \<and>
   Ret5D steady_enriched \<noteq> None \<and> VolumeAvg20 steady_enriched \<noteq> None \<and>
   VolumeRatio steady_enriched \<noteq> None"
proof -
  have w: "with_indicators rolling_ta (replicate 201 steady_bar) = Inr (map steady_row [0..<201])"
    by (rule with_indicators_steady) simp
  have m: "(''TCS.NS'', [steady_enriched, steady_enriched])
      \<in> set (fst (enrich_with_indicators rolling_ta steady_history))"
    by (simp add: enrich_steady_history)
  from enriched_rows_complete [of rolling_ta "replicate 201 steady_bar"
      "[steady_enriched, steady_enriched]" "''TCS.NS''" steady_history]
    enrich_symbol_steady_201 m w
  show ?thesis
    by (simp add: notna_steady_row)
qed

text \<open>
  C8. When the indicator computation of one symbol raises, the batch still returns:
  the symbol has no entry in the output, a warning names it and the exception,
  every symbol whose computation succeeds has its own result as its entry, and the
  output is the one of the batch without the failing symbol.
\<close>

theorem enrichment_isolates_failures:
  assumes "distinct (map fst history)" and "(s, df) \<in> set history"
    and "enrich_symbol lib df = Inl exc"
    and "enrich_with_indicators lib history = (enriched, ws)"
  shows "map_of enriched s = None \<and>
         IndicatorEnrichmentFailed s exc \<in> set ws \<and>
         (\<forall>s' df' data. (s', df') \<in> set history \<and> enrich_symbol lib df' = Inr data
            \<longrightarrow> map_of enriched s' = Some data) \<and>
         enrich_with_indicators lib (filter (\<lambda>item. fst item \<noteq> s) history) =
           (enriched, filter (\<lambda>w. w \<noteq> IndicatorEnrichmentFailed s exc) ws)"
proof -
  have e: "enriched = List.map_filter (enriched_item lib) history"
    and w: "ws = List.map_filter (warning_item lib) history"
    using assms(4) by (simp_all add: enrich_with_indicators_eq [OF assms(1)])
  have only: "df' = df" if "(s, df') \<in> set history" for df'
    using eq_key_imp_eq_value [OF assms(1) that assms(2)] .
  have "s \<notin> fst ` set enriched"
  proof
    assume "s \<in> fst ` set enriched"
    then obtain data where "(s, data) \<in> set enriched" by auto
    then obtain df' where "(s, df') \<in> set history" "enrich_symbol lib df' = Inr data"
      unfolding e enriched_member by blast
    with only assms(3) show False by auto
  qed
  then have 1: "map_of enriched s = None"
    by (simp add: map_of_eq_None_iff)
  have 2: "IndicatorEnrichmentFailed s exc \<in> set ws"
    unfolding w warning_member using assms(2,3) by blast
  have 3: "map_of enriched s' = Some data"
    if "(s', df') \<in> set history \<and> enrich_symbol lib df' = Inr data" for s' df' data
  proof -
    from that have "(s', data) \<in> set enriched"
      unfolding e enriched_member by blast
    moreover have "distinct (map fst enriched)"
      unfolding e using assms(1) by (rule distinct_enriched)
    ultimately show ?thesis by (rule map_of_is_SomeI [rotated])
  qed
  have d': "distinct (map fst (filter (\<lambda>item. fst item \<noteq> s) history))"
    using assms(1) by (rule distinct_map_filter)
  have gone: "\<forall>item \<in> set history. \<not> fst item \<noteq> s \<longrightarrow> enriched_item lib item = None"
    using only assms(3) by (auto simp: enriched_item_def)
  have e': "List.map_filter (enriched_item lib) (filter (\<lambda>item. fst item \<noteq> s) history) = enriched"
    unfolding e using gone by (rule map_filter_skip)
  have w': "List.map_filter (warning_item lib) (filter (\<lambda>item. fst item \<noteq> s) history) =
      filter (\<lambda>w. w \<noteq> IndicatorEnrichmentFailed s exc) ws"
    unfolding w using only assms(3)
  proof (induction history)
    case Nil
    show ?case by simp
  next
    case (Cons item items)
    obtain s' df' where item: "item = (s', df')" by (cases item)
    from Cons.prems(1) have o: "\<And>df'. (s, df') \<in> set items \<Longrightarrow> df' = df" by simp
    note ih = Cons.IH [OF o Cons.prems(2)]
    show ?case
    proof (cases "s' = s")
      case True
      with Cons.prems have "df' = df" by (simp add: item)
      with True ih Cons.prems(2) show ?thesis
        by (simp add: item warning_item_def)
    next
      case False
      with ih show ?thesis
        by (auto simp: item warning_item_def split: sum.splits)
    qed
  qed
  have 4: "enrich_with_indicators lib (filter (\<lambda>item. fst item \<noteq> s) history) =
      (enriched, filter (\<lambda>w. w \<noteq> IndicatorEnrichmentFailed s exc) ws)"
    by (simp add: enrich_with_indicators_eq [OF d'] e' w')
  from 1 2 3 4 show ?thesis by blast
qed

theorem enrichment_isolates_failures_witness:
  "distinct (map fst steady_history) \<and>
   (''INFY.NS'', []) \<in> set steady_history \<and>
   (''TCS.NS'', replicate 201 steady_bar) \<in> set steady_history \<and>
   enrich_symbol rolling_ta [] = Inl (ValueError ''empty series'') \<and>
   enrich_symbol rolling_ta (replicate 201 steady_bar) = Inr [steady_enriched, steady_enriched] \<and>
   enrich_with_indicators rolling_ta steady_history =
     ([(''TCS.NS'', [steady_enriched, steady_enriched])],
      [IndicatorEnrichmentFailed ''INFY.NS'' (ValueError ''empty series'')]) \<and>
   map_of [(''TCS.NS'', [steady_enriched, steady_enriched])] ''INFY.NS'' = None \<and>
   map_of [(''TCS.NS'', [steady_enriched, steady_enriched])] ''TCS.NS'' =
     Some [steady_enriched, steady_enriched] \<and>
   enrich_with_indicators rolling_ta (filter (\<lambda>item. fst item \<noteq> ''INFY.NS'') steady_history) =
     ([(''TCS.NS'', [steady_enriched, steady_enriched])], [])"
proof -
  have d: "distinct (map fst steady_history)"
    and m: "(''INFY.NS'', []) \<in> set steady_history"
    and m': "(''TCS.NS'', replicate 201 steady_bar) \<in> set steady_history"
    by (simp_all add: steady_history_def)
  from enrichment_isolates_failures [OF d m enrich_symbol_empty enrich_steady_history]
  have "enrich_with_indicators rolling_ta (filter (\<lambda>item. fst item \<noteq> ''INFY.NS'') steady_history) =
     ([(''TCS.NS'', [steady_enriched, steady_enriched])], [])"
    by simp
  with d m m' show ?thesis
    by (simp add: enrich_symbol_empty enrich_symbol_steady_201 enrich_steady_history)
qed

section \<open>The run without a surviving symbol\<close>

lemma sorted_desc_Nil [simp]: "sorted_desc key [] = []"
  by (simp add: sorted_desc_def)

lemma slice_to_Nil [simp]: "slice_to [] n = []"
  by (simp add: slice_to_def)

lemma generate_signals_no_table:
  assumes "\<forall>item \<in> set indicator_data. snd item = []"
  shows "generate_signals indicator_data top_n = []"
proof -
  have "filter (\<lambda>(s, df). df \<noteq> [] \<and> fge (buy_score (last df)) (Some 55)) indicator_data = []"
    "filter (\<lambda>(s, df). df \<noteq> [] \<and> fge (sell_score (last df)) (Some 55)) indicator_data = []"
    using assms by (auto simp: filter_empty_conv)
  then have "scan_symbols indicator_data [] [] = ([], [])"
    by (simp add: scan_symbols_eq)
  then show ?thesis
    by (simp add: generate_signals_def)
qed

lemma run_after_collection:
  assumes "collect_market_data (constituents w) (download w) = Inr (snapshot, fw)"
    and "enrich_with_indicators (ta w) (price_history snapshot) = (indicator_data, ew)"
    and "generate_signals indicator_data 10 = []"
    and "write_excel w [] (output_dir @ ''/sensex_daily_trade_report.xlsx'') = Inr ()"
    and "email_enabled \<longrightarrow> send_email w (output_dir @ ''/sensex_daily_trade_report.xlsx'') = Inr ()"
  shows "run_daily_analysis w output_dir email_enabled =
     Inr \<lparr>report_path = output_dir @ ''/sensex_daily_trade_report.xlsx'',
          report = [],
          console = [CHR 0x0A # replicate 110 (CHR ''=''),
                     ''SENSEX/NSE POST-MARKET ACTIONABLE REPORT - '' @ now w,
                     replicate 110 (CHR ''=''),
                     ''No actionable signals today.''],
          warnings = fw @ ew\<rparr>"
  using assms
  by (simp add: run_daily_analysis_def ebind_def Let_def batch_evaluate_def
      build_report_dataframe_def print_console_report_def)

lemma universe_not_empty: "sort (remdups (cs @ DEFAULT_NSE_SYMBOLS)) \<noteq> []"
proof -
  have "''TCS.NS'' \<in> set (sort (remdups (cs @ DEFAULT_NSE_SYMBOLS)))"
    by (simp add: DEFAULT_NSE_SYMBOLS_def)
  then show ?thesis by force
qed

lemma collect_from_unusable:
  "\<forall>s \<in> set u. \<not> usable_history dl s \<Longrightarrow>
   \<exists>ws'. collect_from dl hist rows ws u = (hist, rows, ws')"
proof (induction u arbitrary: ws)
  case Nil
  show ?case by simp
next
  case (Cons s u)
  then have "\<not> usable_history dl s" and rest: "\<forall>s \<in> set u. \<not> usable_history dl s"
    by simp_all
  then show ?case
    using Cons.IH [OF rest]
    by (cases "fetch_symbol_history dl s") (auto simp: usable_history_def Let_def)
qed

lemma collect_market_data_unusable:
  assumes "\<forall>s \<in> set (sort (remdups (cs @ DEFAULT_NSE_SYMBOLS))). \<not> usable_history dl s"
  shows "collect_market_data cs dl = Inl (KeyError ''PctChange'')"
proof -
  from collect_from_unusable [OF assms, of "[]" "[]" "[]"]
  obtain ws' where "collect_from dl [] [] [] (sort (remdups (cs @ DEFAULT_NSE_SYMBOLS))) = ([], [], ws')"
    by blast
  then show ?thesis
    using universe_not_empty [of cs]
    by (simp add: collect_market_data_def Let_def sort_by_pct_change_def ebind_def)
qed

lemma run_collect_failed:
  "collect_market_data (constituents w) (download w) = Inl e \<Longrightarrow>
   run_daily_analysis w output_dir email_enabled = Inl e"
  by (simp add: run_daily_analysis_def ebind_def)

text \<open>
  C9, as amended. The run fails, with the error of the collection, when the
  collection of market data fails; it does so with \<open>KeyError\<close> when no symbol of
  the universe has a usable history. (The universe itself is never empty: it holds
  the default symbols.) When the collection succeeds and no symbol survives
  enrichment, the run does not fail: it prints that there are no actionable
  signals, writes the empty report and returns its path.
\<close>

theorem run_fails_only_without_data:
  "(collect_market_data (constituents w) (download w) = Inl e
      \<longrightarrow> run_daily_analysis w output_dir email_enabled = Inl e) \<and>
   ((\<forall>s \<in> set (sort (remdups (constituents w @ DEFAULT_NSE_SYMBOLS))). \<not> usable_history (download w) s)
      \<longrightarrow> run_daily_analysis w output_dir email_enabled = Inl (KeyError ''PctChange'')) \<and>
   (collect_market_data (constituents w) (download w) = Inr (snapshot, fw) \<and>
    enrich_with_indicators (ta w) (price_history snapshot) = (indicator_data, ew) \<and>
    surviving_symbols w = [] \<and>
    write_excel w [] (output_dir @ ''/sensex_daily_trade_report.xlsx'') = Inr () \<and>
    (email_enabled \<longrightarrow> send_email w (output_dir @ ''/sensex_daily_trade_report.xlsx'') = Inr ())
      \<longrightarrow> run_daily_analysis w output_dir email_enabled =
            Inr \<lparr>report_path = output_dir @ ''/sensex_daily_trade_report.xlsx'',
                 report = [],
                 console = [CHR 0x0A # replicate 110 (CHR ''=''),
                            ''SENSEX/NSE POST-MARKET ACTIONABLE REPORT - '' @ now w,
                            replicate 110 (CHR ''=''),
                            ''No actionable signals today.''],
                 warnings = fw @ ew\<rparr>)"
proof (intro conjI impI)
  assume "collect_market_data (constituents w) (download w) = Inl e"
  then show "run_daily_analysis w output_dir email_enabled = Inl e"
    by (rule run_collect_failed)
next
  assume "\<forall>s \<in> set (sort (remdups (constituents w @ DEFAULT_NSE_SYMBOLS))). \<not> usable_history (download w) s"
  then have "collect_market_data (constituents w) (download w) = Inl (KeyError ''PctChange'')"
    by (rule collect_market_data_unusable)
  then show "run_daily_analysis w output_dir email_enabled = Inl (KeyError ''PctChange'')"
    by (rule run_collect_failed)
next
  assume a: "collect_market_data (constituents w) (download w) = Inr (snapshot, fw) \<and>
    enrich_with_indicators (ta w) (price_history snapshot) = (indicator_data, ew) \<and>
    surviving_symbols w = [] \<and>
    write_excel w [] (output_dir @ ''/sensex_daily_trade_report.xlsx'') = Inr () \<and>
    (email_enabled \<longrightarrow> send_email w (output_dir @ ''/sensex_daily_trade_report.xlsx'') = Inr ())"
  then have c: "collect_market_data (constituents w) (download w) = Inr (snapshot, fw)"
    and e: "enrich_with_indicators (ta w) (price_history snapshot) = (indicator_data, ew)"
    and n: "surviving_symbols w = []"
    by simp_all
  from n have "filter (\<lambda>item. snd item \<noteq> []) indicator_data = []"
    unfolding surviving_symbols_def c by (simp add: e)
  then have "\<forall>item \<in> set indicator_data. snd item = []"
    by (simp add: filter_empty_conv)
  then have g: "generate_signals indicator_data 10 = []"
    by (rule generate_signals_no_table)
  from a have x: "write_excel w [] (output_dir @ ''/sensex_daily_trade_report.xlsx'') = Inr ()"
    and y: "email_enabled \<longrightarrow> send_email w (output_dir @ ''/sensex_daily_trade_report.xlsx'') = Inr ()"
    by simp_all
  show "run_daily_analysis w output_dir email_enabled =
            Inr \<lparr>report_path = output_dir @ ''/sensex_daily_trade_report.xlsx'',
                 report = [],
                 console = [CHR 0x0A # replicate 110 (CHR ''=''),
                            ''SENSEX/NSE POST-MARKET ACTIONABLE REPORT - '' @ now w,
                            replicate 110 (CHR ''=''),
                            ''No actionable signals today.''],
                 warnings = fw @ ew\<rparr>"
    by (rule run_after_collection [OF c e g x y])
qed

lemma collect_from_constant:
  assumes "\<forall>s \<in> set u. dl s = Inr h" and "h \<noteq> []"
    and "dropna_close_volume h = h" and "60 \<le> length h"
    and "distinct u" and "fst ` set hist \<inter> set u = {}"
  shows "\<exists>rows'. collect_from dl hist rows ws u = (hist @ map (\<lambda>s. (s, h)) u, rows @ rows', ws) \<and>
           length rows' = length u"
  using assms(1,5,6)
proof (induction u arbitrary: hist rows)
  case Nil
  show ?case by simp
next
  case (Cons s u)
  from Cons.prems have dl: "dl s = Inr h" and rest: "\<forall>s \<in> set u. dl s = Inr h"
    and d: "distinct u" and fresh: "s \<notin> fst ` set hist" and s_u: "s \<notin> set u"
    and disj: "fst ` set hist \<inter> set u = {}"
    by auto
  have f: "fetch_symbol_history dl s = Inr h"
    using dl assms(2) by (simp add: fetch_symbol_history_def ebind_def)
  let ?row = "\<lparr>Symbol = s, CurrentPrice = Close (h ! (length h - 1)),
      PrevClose = Close (h ! (length h - 2)),
      PctChange = fmul (fdiv (fsub (Close (h ! (length h - 1))) (Close (h ! (length h - 2))))
                    (Close (h ! (length h - 2)))) (Some 100),
      Volume = bar.Volume (h ! (length h - 1)), High = bar.High (h ! (length h - 1)),
      Low = bar.Low (h ! (length h - 1)), Open = bar.Open (h ! (length h - 1))\<rparr>"
  have step: "collect_from dl hist rows ws (s # u) =
      collect_from dl (hist @ [(s, h)]) (rows @ [?row]) ws u"
    using assms(4) by (simp add: f assms(3) Let_def update_fresh [OF fresh])
  have "fst ` set (hist @ [(s, h)]) \<inter> set u = {}"
    using disj s_u by auto
  from Cons.IH [OF rest d this, of "rows @ [?row]"]
  obtain rows' where "collect_from dl (hist @ [(s, h)]) (rows @ [?row]) ws u =
      ((hist @ [(s, h)]) @ map (\<lambda>s. (s, h)) u, (rows @ [?row]) @ rows', ws)"
    and "length rows' = length u"
    by blast
  with step have "collect_from dl hist rows ws (s # u) =
      (hist @ map (\<lambda>s. (s, h)) (s # u), rows @ (?row # rows'), ws) \<and>
      length (?row # rows') = length (s # u)"
    by simp
  then show ?case by blast
qed

lemma sort_by_pct_change_rows:
  assumes "rows \<noteq> []"
  shows "\<exists>table. sort_by_pct_change rows = Inr table \<and> table \<noteq> []"
proof -
  let ?t = "sorted_desc PctChange (filter (\<lambda>r. PctChange r \<noteq> None) rows) @
            filter (\<lambda>r. PctChange r = None) rows"
  have "length ?t = length rows"
    using sum_length_filter_compl [of "\<lambda>r. PctChange r \<noteq> None" rows]
    by (simp add: length_sorted_desc)
  with assms have "?t \<noteq> []" by force
  with assms show ?thesis by (simp add: sort_by_pct_change_def)
qed

lemma collect_market_data_constant:
  assumes "\<And>s. dl s = Inr h" and "h \<noteq> []"
    and "dropna_close_volume h = h" and "60 \<le> length h"
  shows "\<exists>table. collect_market_data cs dl =
           Inr (\<lparr>price_history = map (\<lambda>s. (s, h)) (sort (remdups (cs @ DEFAULT_NSE_SYMBOLS))),
                 market_table = table\<rparr>, [])"
proof -
  let ?u = "sort (remdups (cs @ DEFAULT_NSE_SYMBOLS))"
  have "distinct ?u" by simp
  from collect_from_constant [OF _ assms(2,3,4) this, of dl "[]" "[]" "[]"] assms(1)
  obtain rows' where c: "collect_from dl [] [] [] ?u = (map (\<lambda>s. (s, h)) ?u, rows', [])"
    and "length rows' = length ?u"
    by auto
  with universe_not_empty [of cs] have "rows' \<noteq> []" by force
  from sort_by_pct_change_rows [OF this]
  obtain table where "sort_by_pct_change rows' = Inr table" "table \<noteq> []" by blast
  with c universe_not_empty [of cs] show ?thesis
    by (simp add: collect_market_data_def Let_def ebind_def)
qed

lemma enrich_constant_history:
  assumes "enrich_symbol lib h = Inr data" and "distinct u"
  shows "enrich_with_indicators lib (map (\<lambda>s. (s, h)) u) = (map (\<lambda>s. (s, data)) u, [])"
proof -
  have "distinct (map fst (map (\<lambda>s. (s, h)) u))"
    using assms(2) by (simp add: o_def)
  moreover have "List.map_filter (enriched_item lib) (map (\<lambda>s. (s, h)) u) = map (\<lambda>s. (s, data)) u"
    "List.map_filter (warning_item lib) (map (\<lambda>s. (s, h)) u) = []"
    using assms(1) by (induction u) (simp_all add: enriched_item_def warning_item_def)
  ultimately show ?thesis
    by (simp add: enrich_with_indicators_eq)
qed

lemma enrich_symbol_steady_60: "enrich_symbol rolling_ta (replicate 60 steady_bar) = Inr []"
  using enrich_symbol_steady [of 60] by simp

lemma quiet_collect:
  "\<exists>table. collect_market_data (constituents quiet_world) (download quiet_world) =
     Inr (\<lparr>price_history = map (\<lambda>s. (s, replicate 60 steady_bar)) (sort (remdups DEFAULT_NSE_SYMBOLS)),
           market_table = table\<rparr>, [])"
proof -
  have "collect_market_data (constituents quiet_world) (download quiet_world) =
      collect_market_data [] (\<lambda>s. Inr (replicate 60 steady_bar))"
    by (simp add: quiet_world_def)
  moreover have "\<exists>table. collect_market_data [] (\<lambda>s. Inr (replicate 60 steady_bar)) =
     Inr (\<lparr>price_history = map (\<lambda>s. (s, replicate 60 steady_bar))
                              (sort (remdups ([] @ DEFAULT_NSE_SYMBOLS))),
           market_table = table\<rparr>, [])"
    by (rule collect_market_data_constant) (simp_all add: steady_bar_def dropna_close_volume_def)
  ultimately show ?thesis by simp
qed

lemma quiet_enriched:
  "enrich_with_indicators (ta quiet_world)
     (map (\<lambda>s. (s, replicate 60 steady_bar)) (sort (remdups DEFAULT_NSE_SYMBOLS))) =
     (map (\<lambda>s. (s, [])) (sort (remdups DEFAULT_NSE_SYMBOLS)), [])"
proof -
  have "ta quiet_world = rolling_ta" by (simp add: quiet_world_def)
  then show ?thesis
    using enrich_constant_history [OF enrich_symbol_steady_60, of "sort (remdups DEFAULT_NSE_SYMBOLS)"]
    by simp
qed

lemma quiet_survivors: "surviving_symbols quiet_world = []"
proof -
  from quiet_collect obtain table where
    "collect_market_data (constituents quiet_world) (download quiet_world) =
     Inr (\<lparr>price_history = map (\<lambda>s. (s, replicate 60 steady_bar)) (sort (remdups DEFAULT_NSE_SYMBOLS)),
           market_table = table\<rparr>, [])"
    by blast
  then show ?thesis
    unfolding surviving_symbols_def
    by (simp add: quiet_enriched filter_empty_conv)
qed

lemma dark_unusable: "\<not> usable_history (download dark_world) s"
  by (simp add: usable_history_def dark_world_def quiet_world_def fetch_symbol_history_def ebind_def)

lemma quiet_run:
  "run_daily_analysis quiet_world ''output'' False =
     Inr \<lparr>report_path = ''output/sensex_daily_trade_report.xlsx'',
          report = [],
          console = [CHR 0x0A # replicate 110 (CHR ''=''),
                     ''SENSEX/NSE POST-MARKET ACTIONABLE REPORT - 2024-01-01 18:00:00'',
                     replicate 110 (CHR ''=''),
                     ''No actionable signals today.''],
          warnings = []\<rparr>"
proof -
  from quiet_collect obtain table where
    c: "collect_market_data (constituents quiet_world) (download quiet_world) =
     Inr (\<lparr>price_history = map (\<lambda>s. (s, replicate 60 steady_bar)) (sort (remdups DEFAULT_NSE_SYMBOLS)),
           market_table = table\<rparr>, [])"
    by blast
  have p: "price_history \<lparr>price_history = map (\<lambda>s. (s, replicate 60 steady_bar)) (sort (remdups DEFAULT_NSE_SYMBOLS)),
           market_table = table\<rparr> = map (\<lambda>s. (s, replicate 60 steady_bar)) (sort (remdups DEFAULT_NSE_SYMBOLS))"
    by simp
  have e: "enrich_with_indicators (ta quiet_world)
      (price_history \<lparr>price_history = map (\<lambda>s. (s, replicate 60 steady_bar)) (sort (remdups DEFAULT_NSE_SYMBOLS)),
           market_table = table\<rparr>) = (map (\<lambda>s. (s, [])) (sort (remdups DEFAULT_NSE_SYMBOLS)), [])"
    unfolding p by (rule quiet_enriched)
  have g: "generate_signals (map (\<lambda>s. (s, [])) (sort (remdups DEFAULT_NSE_SYMBOLS))) 10 = []"
    by (rule generate_signals_no_table) simp
  have x: "write_excel quiet_world [] (''output'' @ ''/sensex_daily_trade_report.xlsx'') = Inr ()"
    by (simp add: quiet_world_def)
  have y: "False \<longrightarrow> send_email quiet_world (''output'' @ ''/sensex_daily_trade_report.xlsx'') = Inr ()"
    by simp
  have n: "now quiet_world = ''2024-01-01 18:00:00''"
    by (simp add: quiet_world_def)
  from run_after_collection [OF c e g x y]
  show ?thesis by (simp add: n)
qed

theorem run_fails_only_without_data_witness:
  "collect_market_data (constituents dark_world) (download dark_world) = Inl (KeyError ''PctChange'') \<and>
   run_daily_analysis dark_world ''output'' False = Inl (KeyError ''PctChange'') \<and>
   surviving_symbols quiet_world = [] \<and>
   write_excel quiet_world [] (''output'' @ ''/sensex_daily_trade_report.xlsx'') = Inr () \<and>
   run_daily_analysis quiet_world ''output'' False =
     Inr \<lparr>report_path = ''output/sensex_daily_trade_report.xlsx'',
          report = [],
          console = [CHR 0x0A # replicate 110 (CHR ''=''),
                     ''SENSEX/NSE POST-MARKET ACTIONABLE REPORT - 2024-01-01 18:00:00'',
                     replicate 110 (CHR ''=''),
                     ''No actionable signals today.''],
          warnings = []\<rparr>"
proof -
  have u: "\<forall>s \<in> set (sort (remdups (constituents dark_world @ DEFAULT_NSE_SYMBOLS))).
      \<not> usable_history (download dark_world) s"
    by (simp add: dark_unusable)
  then have c: "collect_market_data (constituents dark_world) (download dark_world) =
      Inl (KeyError ''PctChange'')"
    by (rule collect_market_data_unusable)
  from quiet_collect obtain table where
    q: "collect_market_data (constituents quiet_world) (download quiet_world) =
     Inr (\<lparr>price_history = map (\<lambda>s. (s, replicate 60 steady_bar)) (sort (remdups DEFAULT_NSE_SYMBOLS)),
           market_table = table\<rparr>, [])"
    by blast
  have p: "price_history \<lparr>price_history = map (\<lambda>s. (s, replicate 60 steady_bar)) (sort (remdups DEFAULT_NSE_SYMBOLS)),
           market_table = table\<rparr> = map (\<lambda>s. (s, replicate 60 steady_bar)) (sort (remdups DEFAULT_NSE_SYMBOLS))"
    by simp
  have e: "enrich_with_indicators (ta quiet_world)
      (price_history \<lparr>price_history = map (\<lambda>s. (s, replicate 60 steady_bar)) (sort (remdups DEFAULT_NSE_SYMBOLS)),
           market_table = table\<rparr>) = (map (\<lambda>s. (s, [])) (sort (remdups DEFAULT_NSE_SYMBOLS)), [])"
    unfolding p by (rule quiet_enriched)
  have x: "write_excel quiet_world [] (''output'' @ ''/sensex_daily_trade_report.xlsx'') = Inr ()"
    by (simp add: quiet_world_def)
  have n: "now quiet_world = ''2024-01-01 18:00:00''"
    by (simp add: quiet_world_def)
  from run_fails_only_without_data [of dark_world "KeyError ''PctChange''" "''output''" False] u c
  have dark: "run_daily_analysis dark_world ''output'' False = Inl (KeyError ''PctChange'')"
    by blast
  from run_fails_only_without_data [of quiet_world _ "''output''" False, THEN conjunct2, THEN conjunct2]
    q e quiet_survivors x
  have "run_daily_analysis quiet_world ''output'' False =
     Inr \<lparr>report_path = ''output'' @ ''/sensex_daily_trade_report.xlsx'',
          report = [],
          console = [CHR 0x0A # replicate 110 (CHR ''=''),
                     ''SENSEX/NSE POST-MARKET ACTIONABLE REPORT - '' @ now quiet_world,
                     replicate 110 (CHR ''=''),
                     ''No actionable signals today.''],
          warnings = [] @ []\<rparr>"
    by blast
  with c dark quiet_survivors x show ?thesis
    by (simp add: n)
qed

text \<open>
  Every download returns 60 bars: no enriched table has a row, and the run returns
  normally with an empty report.
\<close>

theorem run_without_survivors_counterexample:
  "surviving_symbols quiet_world = [] \<and>
   run_daily_analysis quiet_world ''output'' False =
     Inr \<lparr>report_path = ''output/sensex_daily_trade_report.xlsx'',
          report = [],
          console = [CHR 0x0A # replicate 110 (CHR ''=''),
                     ''SENSEX/NSE POST-MARKET ACTIONABLE REPORT - 2024-01-01 18:00:00'',
                     replicate 110 (CHR ''=''),
                     ''No actionable signals today.''],
          warnings = []\<rparr> \<and>
   \<not> isl (run_daily_analysis quiet_world ''output'' False)"
  by (simp add: quiet_survivors quiet_run)

section \<open>One symbol in both directions\<close>

lemma buy_score_mixed: "buy_score mixed_row = Some 55"
  by (simp add: mixed_row_def buy_score_def Let_def fadd_def fmul_def fgt_def flt_def fle_def
      py_min_def py_max_def)

lemma sell_score_mixed: "sell_score mixed_row = Some 60"
  by (simp add: mixed_row_def sell_score_def Let_def fadd_def fmul_def fgt_def flt_def fle_def
      py_min_def py_max_def fabs_def)

lemma generate_mixed:
  "generate_signals mixed_data 10 = [buy_signal ''TCS.NS'' mixed_row, sell_signal ''TCS.NS'' mixed_row]"
  by (simp add: generate_signals_def mixed_data_def buy_score_mixed sell_score_mixed fge_def fle_def
      Let_def sorted_desc_def slice_to_def)

lemma round_half_even_numeral [simp]: "round_half_even (numeral k) = numeral k"
  using round_half_even_of_int [of "numeral k"] by simp

lemma round_half_even_0 [simp]: "round_half_even 0 = 0"
  using round_half_even_of_int [of 0] by simp

lemma round_half_even_1 [simp]: "round_half_even 1 = 1"
  using round_half_even_of_int [of 1] by simp

lemma Close_mixed [simp]: "Close mixed_row = Some 100"
  by (simp add: mixed_row_def)

lemma returns_mixed: "returns_of [mixed_row, mixed_row, mixed_row] = [Some 0, Some 0]"
  by (simp add: returns_of_def pct_change_def fsub_def fdiv_def upt_rec numeral_3_eq_3)

lemma volatility_mixed: "volatility_of [mixed_row, mixed_row, mixed_row] = Some 0"
  by (simp add: volatility_of_def returns_mixed series_std_def fmul_def)

lemma drawdown_mixed: "drawdown_abs_of [mixed_row, mixed_row, mixed_row] = Some 0"
  by (simp add: drawdown_abs_of_def returns_mixed cumprod_def cummax_def fadd_def fsub_def fdiv_def
      series_min_def fabs_def Let_def)

lemma trend_stability_mixed: "trend_stability_of [mixed_row, mixed_row, mixed_row] = Some 1"
  by (simp add: trend_stability_of_def trend_strength_of_def volatility_mixed py_max_def py_min_def
      fgt_def flt_def fsub_def fabs_def)

lemma blended_mixed: "blended_risk_of [mixed_row, mixed_row, mixed_row] = Some 0"
  by (simp add: blended_risk_of_def volatility_mixed drawdown_mixed trend_stability_mixed py_min_def
      flt_def fdiv_def fmul_def fadd_def fsub_def)

lemma evaluate_risk_mixed:
  "evaluate_risk sg [mixed_row, mixed_row, mixed_row] =
     \<lparr>volatility_score = Some 0, drawdown_risk = Some 0, trend_stability = Some 1,
      stop_loss = TradeSignal.stop_loss sg, risk_level = ''LOW''\<rparr>"
  by (simp add: evaluate_risk_def volatility_mixed drawdown_mixed trend_stability_mixed blended_mixed
      py_round_def risk_level_of_def flt_def)

lemma stop_loss_mixed:
  "TradeSignal.stop_loss (buy_signal ''TCS.NS'' mixed_row) = Some 97"
  "TradeSignal.stop_loss (sell_signal ''TCS.NS'' mixed_row) = Some 103"
  by (simp_all add: buy_signal_def sell_signal_def Let_def fmul_def py_round_def)

lemma batch_evaluate_mixed:
  "batch_evaluate [buy_signal ''TCS.NS'' mixed_row, sell_signal ''TCS.NS'' mixed_row] mixed_data =
     Inr [(''TCS.NS'',
           \<lparr>volatility_score = Some 0, drawdown_risk = Some 0, trend_stability = Some 1,
            stop_loss = Some 103, risk_level = ''LOW''\<rparr>)]"
  by (simp add: batch_evaluate_def getitem_def mixed_data_def evaluate_risk_mixed stop_loss_mixed)

lemma own_estimates_mixed:
  "estimate_probability (buy_signal ''TCS.NS'' mixed_row)
     (evaluate_risk (buy_signal ''TCS.NS'' mixed_row) [mixed_row, mixed_row, mixed_row]) =
     Inr \<lparr>probability = Some 70.75, confidence_note = ''Strong trend continuation''\<rparr>"
  "estimate_probability (sell_signal ''TCS.NS'' mixed_row)
     (evaluate_risk (sell_signal ''TCS.NS'' mixed_row) [mixed_row, mixed_row, mixed_row]) =
     Inr \<lparr>probability = Some 73.5, confidence_note = ''Strong trend continuation''\<rparr>"
  by (simp_all add: estimate_probability_def evaluate_risk_mixed getitem_def Let_def
      buy_score_mixed sell_score_mixed py_min_def flt_def fdiv_def fmul_def fadd_def py_round_def
      fge_def fle_def)

lemma probabilities_mixed:
  "probabilities_from [] [buy_signal ''TCS.NS'' mixed_row, sell_signal ''TCS.NS'' mixed_row]
     [(''TCS.NS'',
       \<lparr>volatility_score = Some 0, drawdown_risk = Some 0, trend_stability = Some 1,
        stop_loss = Some 103, risk_level = ''LOW''\<rparr>)] =
     Inr [(''TCS.NS'', \<lparr>probability = Some 73.5, confidence_note = ''Strong trend continuation''\<rparr>)]"
  by (simp add: ebind_def estimate_probability_def getitem_def Let_def
      buy_score_mixed sell_score_mixed py_min_def flt_def fdiv_def fmul_def fadd_def py_round_def
      fge_def fle_def)

lemma before_mixed: "''BUY'' < ''SELL''"
  by (simp add: less_char_def)

lemma signal_fields_mixed:
  "current_price (buy_signal ''TCS.NS'' mixed_row) = Some 100"
  "current_price (sell_signal ''TCS.NS'' mixed_row) = Some 100"
  "target_price (buy_signal ''TCS.NS'' mixed_row) = Some 105"
  "target_price (sell_signal ''TCS.NS'' mixed_row) = Some 95"
  by (simp_all add: buy_signal_def sell_signal_def Let_def fmul_def py_round_def)

lemma report_mixed:
  "build_report_dataframe [buy_signal ''TCS.NS'' mixed_row, sell_signal ''TCS.NS'' mixed_row]
     [(''TCS.NS'',
       \<lparr>volatility_score = Some 0, drawdown_risk = Some 0, trend_stability = Some 1,
        stop_loss = Some 103, risk_level = ''LOW''\<rparr>)]
     [(''TCS.NS'', \<lparr>probability = Some 73.5, confidence_note = ''Strong trend continuation''\<rparr>)] =
     Inr [mixed_buy_line, mixed_sell_line]"
proof -
  have rows: "report_rows [buy_signal ''TCS.NS'' mixed_row, sell_signal ''TCS.NS'' mixed_row]
     [(''TCS.NS'',
       \<lparr>volatility_score = Some 0, drawdown_risk = Some 0, trend_stability = Some 1,
        stop_loss = Some 103, risk_level = ''LOW''\<rparr>)]
     [(''TCS.NS'', \<lparr>probability = Some 73.5, confidence_note = ''Strong trend continuation''\<rparr>)] =
     Inr [mixed_buy_line, mixed_sell_line]"
    by (simp add: ebind_def getitem_def signal_fields_mixed py_round_def mixed_buy_line_def
        mixed_sell_line_def)
  have "\<not> report_before mixed_sell_line mixed_buy_line"
    using before_mixed by (simp add: report_before_def mixed_buy_line_def mixed_sell_line_def)
  then show ?thesis
    unfolding build_report_dataframe_def rows by (simp add: ebind_def)
qed

lemma find_snoc:
  "List.find P (xs @ [x]) = (case List.find P xs of Some y \<Rightarrow> Some y | None \<Rightarrow> if P x then Some x else None)"
  by (induction xs) auto

text \<open>
  In general: the dictionary of \<open>batch_evaluate\<close> has one entry per symbol, and it is
  the risk profile of the last signal of that symbol.
\<close>

lemma batch_evaluate_from_last:
  assumes "batch_evaluate_from acc sigs indicator_data = Inr risks" and "distinct (map fst acc)"
  shows "distinct (map fst risks) \<and>
         map_of risks s =
           (case List.find (\<lambda>sg. symbol sg = s) (rev sigs) of
              None \<Rightarrow> map_of acc s
            | Some sg \<Rightarrow> map_option (evaluate_risk sg) (map_of indicator_data s))"
  using assms
proof (induction sigs arbitrary: acc)
  case Nil
  then show ?case by simp
next
  case (Cons sg sigs)
  from Cons.prems(1) obtain d where d: "map_of indicator_data (symbol sg) = Some d"
    and run: "batch_evaluate_from (AList.update (symbol sg) (evaluate_risk sg d) acc) sigs
                indicator_data = Inr risks"
    by (auto simp: getitem_def split: option.splits)
  have "distinct (map fst (AList.update (symbol sg) (evaluate_risk sg d) acc))"
    using Cons.prems(2) by (rule distinct_update)
  from Cons.IH [OF run this] d show ?case
    by (auto simp: find_snoc update_conv' split: option.splits)
qed

lemma batch_evaluate_last:
  assumes "batch_evaluate sigs indicator_data = Inr risks"
  shows "distinct (map fst risks) \<and>
         map_of risks s =
           (case List.find (\<lambda>sg. symbol sg = s) (rev sigs) of
              None \<Rightarrow> None
            | Some sg \<Rightarrow> map_option (evaluate_risk sg) (map_of indicator_data s))"
  using batch_evaluate_from_last [of "[]" sigs indicator_data risks s] assms
  by (simp add: batch_evaluate_def split: option.splits)

text \<open>
  C10. There is an input on which one symbol gets a BUY and a SELL signal: the
  dictionaries of the risk profiles and of the probabilities then hold one entry for
  it, the one of the SELL signal, which comes last; the stop-loss and the
  probability of the BUY signal differ from it, and both lines of the report carry
  the stop-loss and the probability of the SELL signal.
\<close>

theorem both_directions_share_one_entry:
  "\<exists>indicator_data s data b c risk prob.
     generate_signals indicator_data 10 = [b, c] \<and>
     symbol b = s \<and> signal b = ''BUY'' \<and> symbol c = s \<and> signal c = ''SELL'' \<and>
     batch_evaluate [b, c] indicator_data = Inr [(s, risk)] \<and>
     getitem indicator_data s = Inr data \<and>
     risk = evaluate_risk c data \<and>
     stop_loss risk = TradeSignal.stop_loss c \<and>
     TradeSignal.stop_loss b \<noteq> TradeSignal.stop_loss c \<and>
     probabilities_from [] [b, c] [(s, risk)] = Inr [(s, prob)] \<and>
     estimate_probability c risk = Inr prob \<and>
     estimate_probability b (evaluate_risk b data) \<noteq> Inr prob \<and>
     map_sum id (map (\<lambda>row. (Stock_Name row, Signal row, Stop_Loss row, Probability row)))
        (build_report_dataframe [b, c] [(s, risk)] [(s, prob)]) =
       Inr [(s, ''BUY'', TradeSignal.stop_loss c, probability prob),
            (s, ''SELL'', TradeSignal.stop_loss c, probability prob)]"
proof (intro exI conjI)
  show "getitem mixed_data ''TCS.NS'' = Inr [mixed_row, mixed_row, mixed_row]"
    by (simp add: getitem_def mixed_data_def)
  show "generate_signals mixed_data 10 = [buy_signal ''TCS.NS'' mixed_row, sell_signal ''TCS.NS'' mixed_row]"
    by (rule generate_mixed)
  show "batch_evaluate [buy_signal ''TCS.NS'' mixed_row, sell_signal ''TCS.NS'' mixed_row] mixed_data =
      Inr [(''TCS.NS'',
           \<lparr>volatility_score = Some 0, drawdown_risk = Some 0, trend_stability = Some 1,
            stop_loss = Some 103, risk_level = ''LOW''\<rparr>)]"
    by (rule batch_evaluate_mixed)
  show "probabilities_from [] [buy_signal ''TCS.NS'' mixed_row, sell_signal ''TCS.NS'' mixed_row]
     [(''TCS.NS'',
       \<lparr>volatility_score = Some 0, drawdown_risk = Some 0, trend_stability = Some 1,
        stop_loss = Some 103, risk_level = ''LOW''\<rparr>)] =
     Inr [(''TCS.NS'', \<lparr>probability = Some 73.5, confidence_note = ''Strong trend continuation''\<rparr>)]"
    by (rule probabilities_mixed)
  show "map_sum id (map (\<lambda>row. (Stock_Name row, Signal row, Stop_Loss row, Probability row)))
        (build_report_dataframe [buy_signal ''TCS.NS'' mixed_row, sell_signal ''TCS.NS'' mixed_row]
           [(''TCS.NS'',
             \<lparr>volatility_score = Some 0, drawdown_risk = Some 0, trend_stability = Some 1,
              stop_loss = Some 103, risk_level = ''LOW''\<rparr>)]
           [(''TCS.NS'', \<lparr>probability = Some 73.5, confidence_note = ''Strong trend continuation''\<rparr>)]) =
       Inr [(''TCS.NS'', ''BUY'', TradeSignal.stop_loss (sell_signal ''TCS.NS'' mixed_row),
             probability \<lparr>probability = Some 73.5, confidence_note = ''Strong trend continuation''\<rparr>),
            (''TCS.NS'', ''SELL'', TradeSignal.stop_loss (sell_signal ''TCS.NS'' mixed_row),
             probability \<lparr>probability = Some 73.5, confidence_note = ''Strong trend continuation''\<rparr>)]"
    unfolding report_mixed by (simp add: stop_loss_mixed mixed_buy_line_def mixed_sell_line_def)
qed (simp_all add: stop_loss_mixed getitem_def mixed_data_def evaluate_risk_mixed own_estimates_mixed
    own_estimates_mixed [unfolded evaluate_risk_mixed stop_loss_mixed])

end
